theory Spec2Isabelle
  imports Complex_Main "HOL-Library.Product_Lexorder"
begin

section \<open>Customer engagement priority engine: data model\<close>

text \<open>
  The development embeds the scoring core of \<^verbatim>\<open>src/tech/generate_customer_alerts.py\<close>.
  Conventions of the embedding:
  \<^item> a Python \<^verbatim>\<open>str\<close> is the list of its Unicode code points (\<open>pystr\<close>), so that
    \<^verbatim>\<open>"x" in s\<close> and \<^verbatim>\<open>s.strip()\<close> mean what they mean in Python;
  \<^item> a \<^verbatim>\<open>datetime.date\<close> is its day ordinal, so \<^verbatim>\<open>(a - b).days\<close> is \<open>a - b\<close> and
    \<^verbatim>\<open>d - timedelta(days=n)\<close> is \<open>d - n\<close>;
  \<^item> a Python \<^verbatim>\<open>float\<close> is a real number (exact arithmetic);
  \<^item> counters that start at 0 and are only incremented are natural numbers.
\<close>

type_synonym pystr = "nat list"
type_synonym pydate = int

subsection \<open>Strings and numbers of the host language\<close>

definition py_isspace :: "nat \<Rightarrow> bool" where
  "py_isspace c = (c \<in> set [9, 10, 11, 12, 13, 28, 29, 30, 31, 32, 133, 160, 5760,
      8192, 8193, 8194, 8195, 8196, 8197, 8198, 8199, 8200, 8201, 8202,
      8232, 8233, 8239, 8287, 12288])"

definition py_strip :: "pystr \<Rightarrow> pystr" where
  "py_strip s = rev (dropWhile py_isspace (rev (dropWhile py_isspace s)))"

text \<open>\<^verbatim>\<open>needle in haystack\<close> for strings.\<close>

fun py_in :: "pystr \<Rightarrow> pystr \<Rightarrow> bool" where
  "py_in needle [] = (needle = [])"
| "py_in needle (c # cs) = (take (length needle) (c # cs) = needle \<or> py_in needle cs)"

fun py_join :: "pystr \<Rightarrow> pystr list \<Rightarrow> pystr" where
  "py_join sep [] = []"
| "py_join sep [x] = x"
| "py_join sep (x # y # ys) = x @ sep @ py_join sep (y # ys)"

text \<open>Truth value of an optional cell text: \<^verbatim>\<open>None\<close> and \<^verbatim>\<open>""\<close> are false.\<close>

definition truthy :: "pystr option \<Rightarrow> bool" where
  "truthy v = (case v of None \<Rightarrow> False | Some s \<Rightarrow> s \<noteq> [])"

text \<open>\<^verbatim>\<open>str(v).strip() if v is not None else ""\<close>; also \<^verbatim>\<open>(v or "").strip() if v else ""\<close>.\<close>

definition strip_or_empty :: "pystr option \<Rightarrow> pystr" where
  "strip_or_empty v = (case v of None \<Rightarrow> [] | Some s \<Rightarrow> py_strip s)"

text \<open>
  \<^verbatim>\<open>round(x, n)\<close>: the nearest multiple of \<open>10\<^sup>-\<^sup>n\<close>, ties to the even neighbour.
\<close>

definition round_half_even :: "real \<Rightarrow> int" where
  "round_half_even x =
     (let f = \<lfloor>x\<rfloor>; d = x - of_int f
      in if d < 1 / 2 then f else if d > 1 / 2 then f + 1
         else if even f then f else f + 1)"

definition py_round :: "real \<Rightarrow> nat \<Rightarrow> real" where
  "py_round x n = of_int (round_half_even (x * 10 ^ n)) / 10 ^ n"

text \<open>\<^verbatim>\<open>math.isclose(a, b)\<close> with its default tolerances.\<close>

definition isclose :: "real \<Rightarrow> real \<Rightarrow> bool" where
  "isclose a b = (\<bar>a - b\<bar> \<le> max ((1 / 10 ^ 9) * max \<bar>a\<bar> \<bar>b\<bar>) 0)"

subsection \<open>Markers and labels\<close>

definition EXCHANGE_MARK :: pystr where "EXCHANGE_MARK = [25442]"
definition CANCEL_MARK :: pystr where "CANCEL_MARK = [21462, 28040]"
definition REFUND_MARK :: pystr where "REFUND_MARK = [36864]"
definition UNKNOWN_CUSTOMER :: pystr where "UNKNOWN_CUSTOMER = [26410, 30693, 23458, 25143]"

subsection \<open>Frequency counters\<close>

text \<open>
  A \<^verbatim>\<open>collections.Counter\<close>, as the association list of its entries in insertion order.
  \<^verbatim>\<open>most_common(1)\<close> returns the first entry with the greatest count.
\<close>

type_synonym counter = "(pystr \<times> nat) list"

fun counter_incr :: "pystr \<Rightarrow> counter \<Rightarrow> counter" where
  "counter_incr k [] = [(k, 1)]"
| "counter_incr k (e # rest) =
     (if fst e = k then (fst e, snd e + 1) # rest else e # counter_incr k rest)"

fun first_max :: "pystr \<times> nat \<Rightarrow> counter \<Rightarrow> pystr \<times> nat" where
  "first_max best [] = best"
| "first_max best (e # es) = (if snd e > snd best then first_max e es else first_max best es)"

definition choose_primary :: "counter \<Rightarrow> pystr option" where
  "choose_primary c = (case c of [] \<Rightarrow> None | e # es \<Rightarrow> Some (fst (first_max e es)))"

subsection \<open>Per-customer statistics\<close>

text \<open>
  One entry of \<^verbatim>\<open>CustomerStats.order_details\<close>. The fields are the keys of the stored
  dictionary; the order date is kept as a date rather than as its ISO text.
\<close>

record order_detail =
  d_name :: pystr
  d_phone :: pystr
  d_platform :: pystr
  d_manufacturer :: pystr
  d_item :: pystr
  d_product_name :: pystr
  d_color :: pystr
  d_size :: pystr
  d_pay_amount :: real
  d_gross :: real
  d_net :: real
  d_pay_cost :: real
  d_refund_type :: pystr
  d_refund_reason :: pystr
  d_notes :: pystr
  d_order_date :: "pydate option"
  d_order_no :: pystr
  d_return_no :: pystr
  d_data_source :: pystr

record CustomerStats =
  key :: pystr
  name :: "pystr option"
  phone :: "pystr option"
  address :: "pystr option"
  owners :: counter
  platforms :: counter
  items :: counter
  first_order :: "pydate option"
  last_order :: "pydate option"
  orders :: nat
  gross_total :: real
  net_total :: real
  cost_total :: real
  profit_total :: real
  refund_amount :: real
  refund_count :: nat
  cancel_count :: nat
  order_history :: "(pydate \<times> real) list"
  order_details :: "order_detail list"

definition CustomerStats_init :: "pystr \<Rightarrow> CustomerStats" where
  "CustomerStats_init k =
     \<lparr>key = k, name = None, phone = None, address = None,
      owners = [], platforms = [], items = [],
      first_order = None, last_order = None, orders = 0,
      gross_total = 0, net_total = 0, cost_total = 0, profit_total = 0,
      refund_amount = 0, refund_count = 0, cancel_count = 0,
      order_history = [], order_details = []\<rparr>"

definition bump_counter :: "pystr option \<Rightarrow> counter \<Rightarrow> counter" where
  "bump_counter v c = (if truthy v then counter_incr (py_strip (the v)) c else c)"

definition register_valid_order ::
  "CustomerStats \<Rightarrow> pydate option \<Rightarrow> real \<Rightarrow> real \<Rightarrow> real \<Rightarrow> real \<Rightarrow>
   pystr option \<Rightarrow> pystr option \<Rightarrow> pystr option \<Rightarrow> pystr option \<Rightarrow> CustomerStats" where
  "register_valid_order s order_date gross net cost profit item owner platform address' =
     (let s1 = s\<lparr>orders := orders s + 1,
                 gross_total := gross_total s + gross,
                 net_total := net_total s + net,
                 cost_total := cost_total s + cost,
                 profit_total := profit_total s + profit\<rparr>;
          s2 = (case order_date of
                  None \<Rightarrow> s1
                | Some d \<Rightarrow>
                    s1\<lparr>order_history := order_history s1 @ [(d, net)],
                       first_order := (case first_order s1 of
                                         None \<Rightarrow> Some d
                                       | Some f \<Rightarrow> if d < f then Some d else Some f),
                       last_order := (case last_order s1 of
                                        None \<Rightarrow> Some d
                                      | Some l \<Rightarrow> if d > l then Some d else Some l)\<rparr>);
          s3 = s2\<lparr>items := bump_counter item (items s2),
                  owners := bump_counter owner (owners s2),
                  platforms := bump_counter platform (platforms s2)\<rparr>
      in if truthy address' \<and> \<not> truthy (address s3)
         then s3\<lparr>address := Some (py_strip (the address'))\<rparr> else s3)"

definition register_cancellation :: "CustomerStats \<Rightarrow> CustomerStats" where
  "register_cancellation s = s\<lparr>cancel_count := cancel_count s + 1\<rparr>"

definition register_refund :: "CustomerStats \<Rightarrow> real \<Rightarrow> bool \<Rightarrow> CustomerStats" where
  "register_refund s amount force =
     (if amount > 0
      then s\<lparr>refund_amount := refund_amount s + amount, refund_count := refund_count s + 1\<rparr>
      else if force then s\<lparr>refund_count := refund_count s + 1\<rparr> else s)"

subsection \<open>Order rows and their ingestion\<close>

text \<open>
  One worksheet row after the cell parsers of \<^verbatim>\<open>common.py\<close>: text cells as optional
  strings, \<open>gross_val\<close> and \<open>refund_val\<close> as \<^verbatim>\<open>to_float\<close> returned them, \<open>net_val\<close>
  absent when the sheet has no net column, \<open>cost_val\<close> absent when the cost cell is
  missing or blank, \<open>phone_dedup\<close> as \<^verbatim>\<open>deduplicate_phone\<close> returned it and \<open>pay_date\<close>
  as \<^verbatim>\<open>parse_excel_date\<close> returned it.
\<close>

record order_row =
  name_raw :: "pystr option"
  phone_dedup :: "pystr option"
  address_raw :: "pystr option"
  owner_raw :: "pystr option"
  platform_raw :: "pystr option"
  item_raw :: "pystr option"
  manufacturer_raw :: "pystr option"
  status_raw :: "pystr option"
  gross_val :: real
  net_val :: "real option"
  cost_val :: "real option"
  refund_val :: real
  refund_status_raw :: "pystr option"
  notes_raw :: "pystr option"
  refund_type_raw :: "pystr option"
  refund_reason_raw :: "pystr option"
  pay_date :: "pydate option"
  order_no_raw :: "pystr option"
  return_no_raw :: "pystr option"
  data_source_raw :: "pystr option"
  color_raw :: "pystr option"
  size_raw :: "pystr option"

definition build_customer_key :: "pystr option \<Rightarrow> pystr option \<Rightarrow> pystr option \<Rightarrow> pystr" where
  "build_customer_key name' phone' address' =
     (let phone_part = (case phone' of None \<Rightarrow> [] | Some p \<Rightarrow> p);
          name_part = strip_or_empty name'
      in if phone_part \<noteq> [] then phone_part
         else if name_part \<noteq> [] \<and> truthy address' then name_part @ [124] @ py_strip (the address')
         else if name_part \<noteq> [] then name_part
         else if truthy address' then py_strip (the address') else UNKNOWN_CUSTOMER)"

text \<open>The classification of a row: its status text, amounts and refund markers.\<close>

definition row_status :: "order_row \<Rightarrow> pystr" where
  "row_status r = (if truthy (status_raw r) then py_strip (the (status_raw r)) else [])"

definition row_refund_type_text :: "order_row \<Rightarrow> pystr" where
  "row_refund_type_text r = strip_or_empty (refund_type_raw r)"

definition row_is_cancelled :: "order_row \<Rightarrow> bool" where
  "row_is_cancelled r =
     (py_in CANCEL_MARK (row_status r) \<or> py_in CANCEL_MARK (row_refund_type_text r))"

definition row_net :: "order_row \<Rightarrow> real" where
  "row_net r =
     (let gross = gross_val r;
          net = (case net_val r of Some n \<Rightarrow> n | None \<Rightarrow> gross)
      in if isclose net 0 \<and> gross > 0 then gross else net)"

definition row_cost :: "order_row \<Rightarrow> real" where
  "row_cost r = (case cost_val r of Some c \<Rightarrow> c | None \<Rightarrow> 0)"

definition row_profit :: "order_row \<Rightarrow> real" where
  "row_profit r =
     (case cost_val r of
        None \<Rightarrow> 0
      | Some c \<Rightarrow> (if row_net r > 0 then row_net r else gross_val r) - c)"

definition row_is_refund :: "order_row \<Rightarrow> bool" where
  "row_is_refund r =
     (refund_val r > 0
      \<or> (truthy (refund_status_raw r) \<and> py_in REFUND_MARK (the (refund_status_raw r)))
      \<or> (row_refund_type_text r \<noteq> [] \<and> py_in REFUND_MARK (row_refund_type_text r)))"

definition row_detail :: "CustomerStats \<Rightarrow> order_row \<Rightarrow> order_detail" where
  "row_detail s r =
     \<lparr>d_name = (if truthy (name_raw r) then py_strip (py_strip (the (name_raw r)))
                else strip_or_empty (name s)),
      d_phone = strip_or_empty (phone_dedup r),
      d_platform = (if truthy (platform_raw r) then py_strip (py_strip (the (platform_raw r))) else []),
      d_manufacturer = py_strip (strip_or_empty (manufacturer_raw r)),
      d_item = (if truthy (item_raw r) then py_strip (py_strip (the (item_raw r))) else []),
      d_product_name = (if truthy (item_raw r) then py_strip (py_strip (the (item_raw r))) else []),
      d_color = py_strip (strip_or_empty (color_raw r)),
      d_size = py_strip (strip_or_empty (size_raw r)),
      d_pay_amount = gross_val r,
      d_gross = gross_val r,
      d_net = row_net r,
      d_pay_cost = row_cost r,
      d_refund_type = (case refund_type_raw r of
                         Some t \<Rightarrow> py_strip t
                       | None \<Rightarrow> strip_or_empty (refund_status_raw r)),
      d_refund_reason = strip_or_empty (refund_reason_raw r),
      d_notes = py_strip (strip_or_empty (notes_raw r)),
      d_order_date = pay_date r,
      d_order_no = py_strip (strip_or_empty (order_no_raw r)),
      d_return_no = py_strip (strip_or_empty (return_no_raw r)),
      d_data_source = py_strip (strip_or_empty (data_source_raw r))\<rparr>"

text \<open>The body of the row loop of \<^verbatim>\<open>load_customers\<close>, on the customer's record.\<close>

definition process_row :: "CustomerStats \<Rightarrow> order_row \<Rightarrow> CustomerStats" where
  "process_row s r =
     (let s1 = (if truthy (name_raw r) \<and> \<not> truthy (name s)
                then s\<lparr>name := Some (py_strip (the (name_raw r)))\<rparr> else s);
          s2 = (if truthy (phone_dedup r) \<and> \<not> truthy (phone s1)
                then s1\<lparr>phone := phone_dedup r\<rparr> else s1);
          s3 = (if truthy (address_raw r) \<and> \<not> truthy (address s2)
                then s2\<lparr>address := Some (py_strip (the (address_raw r)))\<rparr> else s2);
          s4 = s3\<lparr>order_details := order_details s3 @ [row_detail s3 r]\<rparr>;
          s5 = (if row_is_cancelled r \<or> gross_val r \<le> 0
                then register_cancellation s4
                else register_valid_order s4 (pay_date r) (gross_val r) (row_net r)
                       (row_cost r) (row_profit r)
                       (if truthy (item_raw r) then item_raw r else None)
                       (if truthy (owner_raw r) then owner_raw r else None)
                       (if truthy (platform_raw r) then platform_raw r else None)
                       (if truthy (address_raw r) then address_raw r else None))
      in if row_is_refund r then register_refund s5 (refund_val r) True else s5)"

text \<open>
  The customer dictionary, as the association list of its entries in insertion order.
\<close>

type_synonym customer_map = "(pystr \<times> CustomerStats) list"

fun update_customer :: "pystr \<Rightarrow> order_row \<Rightarrow> customer_map \<Rightarrow> customer_map" where
  "update_customer k r [] = [(k, process_row (CustomerStats_init k) r)]"
| "update_customer k r (e # rest) =
     (if fst e = k then (fst e, process_row (snd e) r) # rest
      else e # update_customer k r rest)"

definition load_customers :: "order_row list \<Rightarrow> customer_map" where
  "load_customers rows =
     foldl (\<lambda>customers r.
              update_customer (build_customer_key (name_raw r) (phone_dedup r) (address_raw r))
                r customers)
       [] rows"

subsection \<open>Time windows\<close>

record time_windows =
  days_30 :: real
  days_90 :: real
  prev_90 :: real
  days_180 :: real
  days_365 :: real

definition window_totals_init :: time_windows where
  "window_totals_init =
     \<lparr>days_30 = 0, days_90 = 0, prev_90 = 0, days_180 = 0, days_365 = 0\<rparr>"

text \<open>One iteration of the loop body of \<^verbatim>\<open>compute_time_windows\<close>.\<close>

definition window_add :: "pydate \<Rightarrow> time_windows \<Rightarrow> pydate \<times> real \<Rightarrow> time_windows" where
  "window_add today w e =
     (let order_date = fst e; net = snd e;
          cutoff_30 = today - 30;
          cutoff_90 = today - 90;
          cutoff_prev_90 = today - 180;
          cutoff_180 = today - 180;
          cutoff_365 = today - 365;
          w1 = (if order_date \<ge> cutoff_30 then w\<lparr>days_30 := days_30 w + net\<rparr> else w);
          w2 = (if order_date \<ge> cutoff_90 then w1\<lparr>days_90 := days_90 w1 + net\<rparr>
                else if order_date \<ge> cutoff_prev_90 then w1\<lparr>prev_90 := prev_90 w1 + net\<rparr>
                else w1);
          w3 = (if order_date \<ge> cutoff_180 then w2\<lparr>days_180 := days_180 w2 + net\<rparr> else w2);
          w4 = (if order_date \<ge> cutoff_365 then w3\<lparr>days_365 := days_365 w3 + net\<rparr> else w3)
      in w4)"

definition compute_time_windows :: "(pydate \<times> real) list \<Rightarrow> pydate \<Rightarrow> time_windows" where
  "compute_time_windows entries today = foldl (window_add today) window_totals_init entries"

subsection \<open>Configuration\<close>

text \<open>
  \<^verbatim>\<open>ConfigModel\<close> as its constructor leaves it. \<open>defaults\<close> keeps the raw numeric
  entries of the configuration file, read with an explicit fallback at every use;
  \<open>orders_dampening\<close> is the dictionary from count strings (and \<^verbatim>\<open>"default"\<close>) to weights.
\<close>

record category_payload =
  c_gross_margin :: "real option"
  c_category_cycle_days :: "real option"
  c_expected_return_rate :: "real option"
  c_touch_cost :: "real option"
  c_max_estimated_margin :: "real option"
  c_max_estimated_uplift :: "real option"

record category_profile =
  p_gross_margin :: real
  p_category_cycle_days :: real
  p_expected_return_rate :: real
  p_touch_cost :: real
  p_max_estimated_margin :: real
  p_max_estimated_uplift :: real

record timing_boost_params =
  enabled :: bool
  window_percentage :: real
  peak_boost :: real
  min_orders :: int
  max_return_rate :: real
  gaussian_k :: real

record ConfigModel =
  defaults :: "string \<rightharpoonup> real"
  categories :: "pystr \<rightharpoonup> category_payload"
  platform_touch_cost :: "pystr \<rightharpoonup> real"
  orders_dampening :: "(string \<times> real) list"
  single_order_enabled :: bool
  single_order_mode :: pystr
  single_order_days :: int
  alias_map :: "pystr \<rightharpoonup> pystr"
  priority_min :: real
  priority_max :: real
  timing_window_boost_config :: timing_boost_params

text \<open>\<^verbatim>\<open>self.defaults.get(k, d)\<close>.\<close>

definition defaults_get :: "ConfigModel \<Rightarrow> string \<Rightarrow> real \<Rightarrow> real" where
  "defaults_get cfg k d = (case defaults cfg k of None \<Rightarrow> d | Some v \<Rightarrow> v)"

definition resolve_category_name :: "ConfigModel \<Rightarrow> pystr option \<Rightarrow> pystr option" where
  "resolve_category_name cfg item_name =
     (if \<not> truthy item_name then None
      else let name' = py_strip (the item_name)
           in if name' = [] then None else alias_map cfg name')"

definition override :: "real option \<Rightarrow> real \<Rightarrow> real" where
  "override v d = (case v of None \<Rightarrow> d | Some x \<Rightarrow> x)"

definition category_profile_of :: "ConfigModel \<Rightarrow> pystr option \<Rightarrow> category_profile" where
  "category_profile_of cfg category_name =
     (let base = \<lparr>p_gross_margin = defaults_get cfg ''gross_margin'' (3 / 10),
                  p_category_cycle_days = defaults_get cfg ''category_cycle_days'' 60,
                  p_expected_return_rate = defaults_get cfg ''expected_return_rate'' (8 / 100),
                  p_touch_cost = defaults_get cfg ''touch_cost'' 6,
                  p_max_estimated_margin = defaults_get cfg ''max_estimated_margin'' 10000,
                  p_max_estimated_uplift = defaults_get cfg ''max_estimated_uplift'' 5\<rparr>
      in case category_name of
           None \<Rightarrow> base
         | Some c \<Rightarrow>
             (if c = [] then base
              else case categories cfg c of
                     None \<Rightarrow> base
                   | Some payload \<Rightarrow>
                       \<lparr>p_gross_margin = override (c_gross_margin payload) (p_gross_margin base),
                        p_category_cycle_days =
                          override (c_category_cycle_days payload) (p_category_cycle_days base),
                        p_expected_return_rate =
                          override (c_expected_return_rate payload) (p_expected_return_rate base),
                        p_touch_cost = override (c_touch_cost payload) (p_touch_cost base),
                        p_max_estimated_margin =
                          override (c_max_estimated_margin payload) (p_max_estimated_margin base),
                        p_max_estimated_uplift =
                          override (c_max_estimated_uplift payload) (p_max_estimated_uplift base)\<rparr>))"

definition platform_cost :: "ConfigModel \<Rightarrow> pystr option \<Rightarrow> real \<Rightarrow> real" where
  "platform_cost cfg platform_name fallback =
     (if \<not> truthy platform_name then fallback
      else case platform_touch_cost cfg (py_strip (the platform_name)) of
             None \<Rightarrow> fallback | Some v \<Rightarrow> v)"

definition priority_bounds :: "ConfigModel \<Rightarrow> real \<times> real" where
  "priority_bounds cfg =
     (min (priority_min cfg) (priority_max cfg), max (priority_min cfg) (priority_max cfg))"

text \<open>\<^verbatim>\<open>str(n)\<close> of a count.\<close>

fun str_of_nat :: "nat \<Rightarrow> string" where
  "str_of_nat n =
     (if n < 10 then [char_of (48 + n)]
      else str_of_nat (n div 10) @ [char_of (48 + n mod 10)])"

definition orders_weight :: "ConfigModel \<Rightarrow> nat \<Rightarrow> real" where
  "orders_weight cfg orders' =
     (let count_key = str_of_nat orders';
          default_weight = (case map_of (orders_dampening cfg) ''default'' of
                              None \<Rightarrow> 1 | Some v \<Rightarrow> v)
      in if orders_dampening cfg = [] then 1
         else case map_of (orders_dampening cfg) count_key of
                Some v \<Rightarrow> v
              | None \<Rightarrow> default_weight)"

definition MODE_PREVIOUS_MONTH :: pystr where
  "MODE_PREVIOUS_MONTH = [112, 114, 101, 118, 105, 111, 117, 115, 95, 109, 111, 110, 116, 104]"
definition MODE_DAYS :: pystr where "MODE_DAYS = [100, 97, 121, 115]"

text \<open>
  \<^verbatim>\<open>str.lower()\<close> on the letters that can matter for a comparison with the two mode
  names, which are ASCII.
\<close>

definition py_lower :: "pystr \<Rightarrow> pystr" where
  "py_lower s = map (\<lambda>c. if 65 \<le> c \<and> c \<le> 90 then c + 32 else c) s"

text \<open>
  The single-order policy. The first and the last day of the calendar month before
  \<^verbatim>\<open>today\<close> come from the \<^verbatim>\<open>datetime\<close> and \<^verbatim>\<open>calendar\<close> modules; they are the
  parameter \<open>prev_month\<close>.
\<close>

definition allow_single_order ::
  "ConfigModel \<Rightarrow> pydate \<times> pydate \<Rightarrow> pydate option \<Rightarrow> pydate \<Rightarrow> bool" where
  "allow_single_order cfg prev_month last_order' today =
     (if \<not> single_order_enabled cfg then True
      else case last_order' of
             None \<Rightarrow> False
           | Some l \<Rightarrow>
               (let mode = py_lower (if single_order_mode cfg = [] then MODE_PREVIOUS_MONTH
                                     else single_order_mode cfg)
                in if mode = MODE_PREVIOUS_MONTH then fst prev_month \<le> l \<and> l \<le> snd prev_month
                   else if mode = MODE_DAYS then l \<ge> today - max 0 (single_order_days cfg)
                   else True))"

subsection \<open>Uplift\<close>

text \<open>\<^verbatim>\<open>v is not None and P(v)\<close> and \<^verbatim>\<open>v is None or P(v)\<close>.\<close>

definition some_and :: "'a option \<Rightarrow> ('a \<Rightarrow> bool) \<Rightarrow> bool" where
  "some_and v P = (case v of None \<Rightarrow> False | Some x \<Rightarrow> P x)"

definition none_or :: "'a option \<Rightarrow> ('a \<Rightarrow> bool) \<Rightarrow> bool" where
  "none_or v P = (case v of None \<Rightarrow> True | Some x \<Rightarrow> P x)"

text \<open>The flag \<^verbatim>\<open>is_vip\<close> of \<^verbatim>\<open>estimate_uplift\<close>, with its \<^verbatim>\<open>if/elif\<close> chain.\<close>

definition is_vip :: "int option \<Rightarrow> real option \<Rightarrow> real \<Rightarrow> bool" where
  "is_vip orders' return_rate avg_order_value =
     (if some_and orders' (\<lambda>n. n \<ge> 7) then
        (if some_and return_rate (\<lambda>r. r < 2 / 10) then True
         else if return_rate = None then True
         else False)
      else if some_and orders' (\<lambda>n. n \<ge> 5) then
        (if some_and return_rate (\<lambda>r. r < 1 / 10) \<and> avg_order_value > 400 then True
         else False)
      else if some_and orders' (\<lambda>n. n \<ge> 3) \<and> avg_order_value > 500 then
        (if some_and return_rate (\<lambda>r. r < 15 / 100) then True
         else if return_rate = None then True
         else False)
      else False)"

definition vip_recency_factor :: "int \<Rightarrow> real" where
  "vip_recency_factor days_since =
     (if days_since \<le> 30 then 9 / 10
      else if days_since \<le> 90 then 11 / 10
      else if days_since \<le> 180 then 95 / 100
      else 8 / 10)"

definition regular_recency_factor :: "int \<Rightarrow> real" where
  "regular_recency_factor days_since =
     (if days_since \<le> 30 then 7 / 10
      else if days_since \<le> 90 then 13 / 10 + (of_int days_since - 30) / 60 * (2 / 10)
      else if days_since \<le> 180 then 15 / 10 - (of_int days_since - 90) / 90 * (7 / 10)
      else 5 / 10)"

definition estimate_uplift ::
  "int option \<Rightarrow> int option \<Rightarrow> ConfigModel \<Rightarrow> real option \<Rightarrow> int option \<Rightarrow> real option \<Rightarrow>
   real \<Rightarrow> real" where
  "estimate_uplift days_since threshold cfg extra_ceiling orders' return_rate avg_order_value =
     (let base = defaults_get cfg ''uplift_base'' (5 / 10);
          floor0 = defaults_get cfg ''uplift_floor'' (1 / 10);
          ceiling0 = defaults_get cfg ''uplift_ceiling'' 2;
          floor' = (if some_and orders' (\<lambda>n. n \<ge> 3) then max floor0 1 else floor0);
          ceiling1 = (case extra_ceiling of None \<Rightarrow> ceiling0 | Some c \<Rightarrow> min ceiling0 c);
          ceiling' = (if ceiling1 < floor' then floor' else ceiling1)
      in if days_since = None \<or> threshold = None \<or> the threshold \<le> 0
         then max floor' (min ceiling' base)
         else
           (let ratio = of_int (the days_since) / of_int (max (the threshold) 1);
                uplift = base + max 0 (ratio - 1);
                uplift' = (if is_vip orders' return_rate avg_order_value
                           then uplift * vip_recency_factor (the days_since)
                           else uplift * regular_recency_factor (the days_since))
            in max floor' (min ceiling' uplift')))"

subsection \<open>Exchanges and the timing-window boost\<close>

definition exchange_count :: "CustomerStats \<Rightarrow> nat" where
  "exchange_count s =
     length (filter (\<lambda>d. py_in EXCHANGE_MARK (py_strip (d_refund_type d))) (order_details s))"

definition effective_orders :: "CustomerStats \<Rightarrow> int" where
  "effective_orders s = int (orders s) - int (exchange_count s)"

definition exchange_penalty :: "CustomerStats \<Rightarrow> int" where
  "exchange_penalty s =
     (if exchange_count s > 0 then
        (if effective_orders s < 2 then - 200
         else if effective_orders s = 2 then - 100
         else if effective_orders s \<le> 4 then - 50
         else 0)
      else 0)"

definition calculate_timing_boost ::
  "int option \<Rightarrow> real option \<Rightarrow> CustomerStats \<Rightarrow> real option \<Rightarrow> ConfigModel \<Rightarrow> real" where
  "calculate_timing_boost days_since personal_cycle_days s return_rate cfg =
     (let tp = timing_window_boost_config cfg in
      if \<not> enabled tp then 0
      else if days_since = None \<or> personal_cycle_days = None then 0
      else if int (orders s) < min_orders tp then 0
      else if effective_orders s < min_orders tp then 0
      else if exchange_count s > 0 then 0
      else if some_and return_rate (\<lambda>r. r > max_return_rate tp) then 0
      else
        (let d = of_int (the days_since);
             window_radius = the personal_cycle_days * window_percentage tp;
             lower_bound = the personal_cycle_days - window_radius;
             upper_bound = the personal_cycle_days + window_radius
         in if d < lower_bound \<or> d > upper_bound then 0
            else
              (let center = the personal_cycle_days;
                   distance_from_center = \<bar>d - center\<bar>;
                   normalized_distance =
                     (if window_radius > 0 then distance_from_center / window_radius else 0);
                   boost = peak_boost tp * exp (- gaussian_k tp * normalized_distance ^ 2)
               in py_round boost 2)))"

subsection \<open>Segmentation labels\<close>

definition LIST_SUPER_VIP :: pystr where "LIST_SUPER_VIP = [36229, 32423, 86, 73, 80]"
definition LIST_COOLDOWN :: pystr where "LIST_COOLDOWN = [20919, 21364, 26399]"
definition LIST_NEEDS_AUDIT :: pystr where
  "LIST_NEEDS_AUDIT = [39640, 39118, 38505, 24453, 25490, 26597]"
definition LIST_NURTURE :: pystr where "LIST_NURTURE = [27963, 36291, 22521, 20859]"
definition LIST_AT_RISK :: pystr where "LIST_AT_RISK = [28626, 20020, 27969, 22833]"

definition TAG_REFUND_SPIKE :: pystr where "TAG_REFUND_SPIKE = [36864, 36135, 28608, 22686]"
definition TAG_HIGH_VALUE_CHURN :: pystr where
  "TAG_HIGH_VALUE_CHURN = [39640, 20215, 20540, 27969, 22833, 39044, 35686]"
definition TAG_LONG_TERM :: pystr where "TAG_LONG_TERM = [38271, 26399, 26410, 22797, 36141]"
definition TAG_SHORT_TERM :: pystr where "TAG_SHORT_TERM = [30701, 26399, 26410, 22797, 36141]"
definition TAG_SPEND_DROP :: pystr where "TAG_SPEND_DROP = [28040, 36153, 39588, 38477]"
definition TAG_ANNIVERSARY :: pystr where "TAG_ANNIVERSARY = [33410, 28857, 22238, 35775]"
definition TAG_HIGH_VALUE_ACTIVE :: pystr where
  "TAG_HIGH_VALUE_ACTIVE = [39640, 20215, 20540, 27963, 36291]"

definition LABEL_STAR :: pystr where "LABEL_STAR = [26126, 26143, 23458, 25143]"
definition LABEL_POTENTIAL :: pystr where "LABEL_POTENTIAL = [28508, 21147, 23458, 25143]"
definition LABEL_ORDINARY :: pystr where "LABEL_ORDINARY = [26222, 36890, 23458, 25143]"

definition GROWTH_GROWING :: pystr where "GROWTH_GROWING = [25104, 38271, 22411]"
definition GROWTH_STABLE :: pystr where "GROWTH_STABLE = [31283, 23450, 22411]"
definition GROWTH_DECLINING :: pystr where "GROWTH_DECLINING = [19979, 28369, 22411]"
definition GROWTH_DORMANT :: pystr where "GROWTH_DORMANT = [20241, 30496, 22411]"
definition GROWTH_NEW :: pystr where "GROWTH_NEW = [26032, 23458, 22411]"
definition GROWTH_HIGH_POTENTIAL_NEW :: pystr where
  "GROWTH_HIGH_POTENTIAL_NEW = [39640, 28508, 26032, 23458]"

definition VALUE_HIGH :: pystr where "VALUE_HIGH = [39640, 20215, 20540]"
definition VALUE_MID :: pystr where "VALUE_MID = [20013, 20215, 20540]"
definition VALUE_LOW :: pystr where "VALUE_LOW = [20302, 20215, 20540]"

definition PLATFORM_DAIFA :: pystr where "PLATFORM_DAIFA = [20195, 21457]"

definition SCOPE_ALL :: pystr where "SCOPE_ALL = [97, 108, 108]"
definition SCOPE_ACTION :: pystr where "SCOPE_ACTION = [97, 99, 116, 105, 111, 110]"

definition bucket_priority_score :: "real \<Rightarrow> pystr \<times> pystr" where
  "bucket_priority_score score =
     (if score \<ge> 80 then
        ([39640, 40, 8805, 56, 48, 41],
         [112, 114, 105, 111, 114, 105, 116, 121, 45, 104, 105, 103, 104])
      else if score \<ge> 50 then
        ([20013, 40, 53, 48, 45, 55, 57, 41],
         [112, 114, 105, 111, 114, 105, 116, 121, 45, 109, 105, 100])
      else if score \<ge> 0 then
        ([20302, 40, 48, 45, 52, 57, 41],
         [112, 114, 105, 111, 114, 105, 116, 121, 45, 108, 111, 119])
      else
        ([36127, 20998],
         [112, 114, 105, 111, 114, 105, 116, 121, 45, 111, 116, 104, 101, 114]))"

definition classify_customer_value :: "real \<Rightarrow> nat \<Rightarrow> real \<Rightarrow> pystr" where
  "classify_customer_value net_total' orders' avg_order_value =
     (if net_total' \<ge> 5000 \<or> (orders' \<ge> 3 \<and> avg_order_value \<ge> 500) then VALUE_HIGH
      else if net_total' \<ge> 2000 \<or> orders' \<ge> 2 then VALUE_MID
      else VALUE_LOW)"

definition classify_customer_list ::
  "real option \<Rightarrow> real \<Rightarrow> pystr option \<Rightarrow> nat \<Rightarrow> real option \<Rightarrow> pystr \<Rightarrow> int option \<Rightarrow>
   real \<Rightarrow> pystr \<Rightarrow> real \<Rightarrow> int \<Rightarrow> pystr" where
  "classify_customer_list personal_cycle_days avg_order_value top_platform orders' return_rate
       potential_label days_since net_total' tags_text priority_score long_term_threshold =
     (if py_in TAG_REFUND_SPIKE tags_text then LIST_NEEDS_AUDIT
      else if some_and return_rate (\<lambda>r. r > 4 / 10) \<and> priority_score \<ge> 50 then LIST_NEEDS_AUDIT
      else if orders' \<ge> 7 \<and> none_or return_rate (\<lambda>r. r < 2 / 10) then LIST_SUPER_VIP
      else if net_total' \<ge> 2000 \<and> orders' \<ge> 5 \<and> none_or return_rate (\<lambda>r. r < 25 / 100)
        then LIST_SUPER_VIP
      else if priority_score \<ge> 200 \<and> orders' \<ge> 5 then LIST_SUPER_VIP
      else if potential_label = LABEL_STAR \<and> orders' \<ge> 5 then LIST_SUPER_VIP
      else if some_and days_since (\<lambda>d. d < 90) \<and> orders' \<ge> 2
              \<and> none_or return_rate (\<lambda>r. r < 3 / 10)
        then LIST_NURTURE
      else if some_and days_since (\<lambda>d. d \<ge> 90 \<and> d \<le> long_term_threshold * 3)
              \<and> (orders' \<ge> 3 \<or> net_total' \<ge> 1000)
              \<and> none_or return_rate (\<lambda>r. r < 5 / 10)
        then LIST_AT_RISK
      else LIST_NURTURE)"

subsection \<open>Lifecycle value\<close>

definition clv_historical_score :: "CustomerStats \<Rightarrow> real" where
  "clv_historical_score s =
     (if net_total s > 0
      then min 100 ((net_total s / 10000) * 100) * (25 / 100)
           + min 100 ((real (orders s) / 20) * 100) * (15 / 100)
      else 0)"

definition clv_activity_score :: "CustomerStats \<Rightarrow> time_windows \<Rightarrow> pydate \<Rightarrow> real" where
  "clv_activity_score s windows today =
     (case last_order s of
        None \<Rightarrow> 0
      | Some l \<Rightarrow>
          (let days_since = today - l;
               recency_score = max 0 (100 - (of_int days_since / 180) * 100);
               a1 = recency_score * (15 / 100)
           in if net_total s > 0
              then a1 + min 100 ((days_90 windows / max (net_total s) 1) * 200) * (15 / 100)
              else a1))"

text \<open>The growth score and the growth type, computed together in the source.\<close>

definition clv_growth :: "CustomerStats \<Rightarrow> time_windows \<Rightarrow> real \<times> pystr" where
  "clv_growth s windows =
     (let recent_90 = days_90 windows; prev_90' = prev_90 windows; recent_30 = days_30 windows
      in if orders s \<ge> 2 then
           (let trend =
                  (if prev_90' > 0 then
                     (let growth_rate = (recent_90 - prev_90') / prev_90'
                      in if growth_rate > 2 / 10
                           then (min 100 (growth_rate * 100) * (2 / 10), GROWTH_GROWING)
                         else if growth_rate < - (2 / 10)
                           then (max 0 (50 + growth_rate * 50) * (2 / 10), GROWTH_DECLINING)
                         else (60 * (2 / 10), GROWTH_STABLE))
                   else if recent_90 > 0 then (60 * (2 / 10), GROWTH_STABLE)
                   else (20 * (2 / 10), GROWTH_DORMANT));
                avg_cycle =
                  (case (last_order s, first_order s) of
                     (Some l, Some f) \<Rightarrow> of_int (l - f) / (real (orders s) - 1)
                   | _ \<Rightarrow> 999);
                g2 = (if orders s \<ge> 3 \<and> avg_cycle < 60 then fst trend + 10 * (1 / 10)
                      else fst trend);
                avg_order_value = net_total s / real (orders s);
                g3 = (if recent_90 > 0 \<and> recent_30 > 0 \<and> recent_30 > avg_order_value * (12 / 10)
                      then g2 + 10 * (1 / 10) else g2)
            in (g3, snd trend))
         else if recent_30 > 200 then (80 * (3 / 10), GROWTH_HIGH_POTENTIAL_NEW)
         else (50 * (3 / 10), GROWTH_NEW))"

definition compute_customer_lifecycle_value ::
  "CustomerStats \<Rightarrow> time_windows \<Rightarrow> pydate \<Rightarrow> category_profile \<Rightarrow> real \<times> pystr \<times> pystr" where
  "compute_customer_lifecycle_value s windows today profile =
     (let clv_score = clv_historical_score s + clv_activity_score s windows today
                        + fst (clv_growth s windows);
          growth_type = snd (clv_growth s windows);
          potential_label =
            (if clv_score \<ge> 70 then LABEL_STAR
             else if clv_score \<ge> 40 \<or> growth_type \<in> {GROWTH_GROWING, GROWTH_HIGH_POTENTIAL_NEW}
               then LABEL_POTENTIAL
             else LABEL_ORDINARY)
      in (clv_score, growth_type, potential_label))"

subsection \<open>Scoring one customer\<close>

text \<open>
  The arguments of \<^verbatim>\<open>build_alert_rows\<close> other than the customers. \<open>prev_month\<close> is the
  calendar month before \<open>today\<close> (see \<open>allow_single_order\<close>). Of a contact-log record only
  the reply status takes part in a decision; it is the value of \<open>contact_info\<close>.
\<close>

record alert_params =
  today :: pydate
  prev_month :: "pydate \<times> pydate"
  high_value_threshold :: real
  churn_days :: int
  churn_multiplier :: real
  drop_threshold :: real
  config_model :: ConfigModel
  anniversary_dates :: "pydate list option"
  anniversary_window :: int
  anniversary_only :: bool
  contact_log :: "pystr \<rightharpoonup> pydate"
  contact_info :: "pystr \<rightharpoonup> pystr option"
  cooldown_days :: int
  cooldown_scope :: pystr
  exclude_recent_days :: int
  allow_high_return :: bool

text \<open>
  The local variables of the loop body of \<^verbatim>\<open>build_alert_rows\<close>, each as a function of
  the arguments and the customer, in the order in which the source computes them
  (lines of \<^verbatim>\<open>generate_customer_alerts.py\<close>):
  \<^item> \<open>cust_windows\<close>, \<open>cust_days_since\<close>, \<open>cust_personal_cycle_days\<close>,
    \<open>cust_personalized_threshold\<close>: lines 1677 to 1704;
  \<^item> the favourite owner, platform and item, the category profile and the thresholds:
    lines 1706 to 1724;
  \<^item> \<open>cust_high_value\<close>, \<open>cust_anniversary_match\<close> and the tags: lines 1726 to 1763;
  \<^item> \<open>cust_return_rate\<close>, the premium uplift cap, the uplift, the margin, the return
    rate estimate, the touch cost and the lifecycle value: lines 1765 to 1826;
  \<^item> the boosts and penalties, the clamp and the rounding: lines 1828 to 1984 (the
    exchange count of lines 1830 to 1838 is the one of \<^verbatim>\<open>calculate_timing_boost\<close>);
  \<^item> the output rows, the cooldown and the eligibility filters: lines 1986 to 2220.
\<close>

definition cust_windows :: "alert_params \<Rightarrow> CustomerStats \<Rightarrow> time_windows" where
  "cust_windows p s = compute_time_windows (order_history s) (today p)"

definition cust_days_since :: "alert_params \<Rightarrow> CustomerStats \<Rightarrow> int option" where
  "cust_days_since p s = (case last_order s of None \<Rightarrow> None | Some l \<Rightarrow> Some (today p - l))"

fun intervals_of :: "pydate list \<Rightarrow> int list" where
  "intervals_of (a # b # rest) = (if b - a > 0 then b - a else 1) # intervals_of (b # rest)"
| "intervals_of _ = []"

definition cust_personal_cycle_days :: "CustomerStats \<Rightarrow> real option" where
  "cust_personal_cycle_days s =
     (if orders s \<ge> 2 \<and> first_order s \<noteq> None \<and> last_order s \<noteq> None then
        (let order_dates = sort (remdups (map fst (order_history s)));
             intervals = (if length order_dates \<ge> 2 then intervals_of order_dates else [])
         in if intervals \<noteq> []
            then Some (of_int (sum_list intervals) / real (length intervals))
            else
              (let span_days = max 0 (the (last_order s) - the (first_order s));
                   cycle = of_int span_days / (real (orders s) - 1)
               in if cycle \<le> 0 then Some 1 else Some cycle))
      else None)"

definition cust_personalized_threshold :: "alert_params \<Rightarrow> CustomerStats \<Rightarrow> real option" where
  "cust_personalized_threshold p s =
     (case cust_personal_cycle_days s of
        None \<Rightarrow> None
      | Some c \<Rightarrow> if c * churn_multiplier p \<le> 0 then None else Some (c * churn_multiplier p))"

definition cust_top_owner :: "CustomerStats \<Rightarrow> pystr option" where
  "cust_top_owner s = choose_primary (owners s)"

definition cust_top_platform :: "CustomerStats \<Rightarrow> pystr option" where
  "cust_top_platform s = choose_primary (platforms s)"

definition cust_top_item :: "CustomerStats \<Rightarrow> pystr option" where
  "cust_top_item s = choose_primary (items s)"

definition cust_category_profile :: "alert_params \<Rightarrow> CustomerStats \<Rightarrow> category_profile" where
  "cust_category_profile p s =
     category_profile_of (config_model p)
       (resolve_category_name (config_model p) (cust_top_item s))"

definition cust_category_cycle :: "alert_params \<Rightarrow> CustomerStats \<Rightarrow> real" where
  "cust_category_cycle p s = max 1 (p_category_cycle_days (cust_category_profile p s))"

definition cust_margin_cap :: "alert_params \<Rightarrow> CustomerStats \<Rightarrow> real" where
  "cust_margin_cap p s = max 0 (p_max_estimated_margin (cust_category_profile p s))"

definition py_max :: "int list \<Rightarrow> int" where
  "py_max xs = foldl max (hd xs) (tl xs)"

definition threshold_candidates :: "alert_params \<Rightarrow> CustomerStats \<Rightarrow> int list" where
  "threshold_candidates p s =
     (let category_threshold = max 1 \<lceil>cust_category_cycle p s * churn_multiplier p\<rceil>;
          fallback_threshold = max 1 (churn_days p)
      in [fallback_threshold, category_threshold]
         @ (case cust_personalized_threshold p s of
              None \<Rightarrow> []
            | Some t \<Rightarrow> [max 1 \<lceil>t\<rceil>]))"

definition long_term_threshold_of :: "alert_params \<Rightarrow> CustomerStats \<Rightarrow> int" where
  "long_term_threshold_of p s =
     (if threshold_candidates p s \<noteq> [] then py_max (threshold_candidates p s)
      else max 1 (churn_days p))"

definition short_term_threshold_of :: "int \<Rightarrow> int" where
  "short_term_threshold_of long_term_threshold =
     (let short_term_threshold = max 1 \<lceil>of_int long_term_threshold / (2 :: real)\<rceil>
      in if short_term_threshold \<ge> long_term_threshold \<and> long_term_threshold > 1
         then long_term_threshold - 1 else short_term_threshold)"

definition cust_short_term_threshold :: "alert_params \<Rightarrow> CustomerStats \<Rightarrow> int" where
  "cust_short_term_threshold p s = short_term_threshold_of (long_term_threshold_of p s)"

definition cust_high_value :: "alert_params \<Rightarrow> CustomerStats \<Rightarrow> bool" where
  "cust_high_value p s = (net_total s \<ge> high_value_threshold p \<and> high_value_threshold p > 0)"

definition cust_anniversary_match :: "alert_params \<Rightarrow> CustomerStats \<Rightarrow> bool" where
  "cust_anniversary_match p s =
     (case (last_order s, anniversary_dates p) of
        (Some l, Some targets) \<Rightarrow> list_ex (\<lambda>t. \<bar>l - t\<bar> \<le> anniversary_window p) targets
      | _ \<Rightarrow> False)"

definition cust_drop_ratio :: "alert_params \<Rightarrow> CustomerStats \<Rightarrow> real option" where
  "cust_drop_ratio p s =
     (let w = cust_windows p s
      in if prev_90 w > 0 then Some (days_90 w / prev_90 w) else None)"

definition refund_spike :: "CustomerStats \<Rightarrow> bool" where
  "refund_spike s =
     (refund_amount s > 0 \<and> net_total s > 0
      \<and> (refund_amount s / max (net_total s) 1 \<ge> 3 / 10 \<or> refund_count s \<ge> 2))"

text \<open>
  The tags, in the order in which the source appends them: at most one churn tag, the
  spend-drop tag, the refund-spike tag, the anniversary tag, and the high-value-active
  tag when no other tag was raised.
\<close>

definition churn_tags :: "alert_params \<Rightarrow> CustomerStats \<Rightarrow> pystr list" where
  "churn_tags p s =
     (let lt = long_term_threshold_of p s; st = cust_short_term_threshold p s
      in case cust_days_since p s of
           None \<Rightarrow> []
         | Some d \<Rightarrow>
             if cust_high_value p s \<and> d \<ge> lt then [TAG_HIGH_VALUE_CHURN]
             else if d \<ge> lt then [TAG_LONG_TERM]
             else if d \<ge> st then [TAG_SHORT_TERM]
             else [])"

definition spend_drop_tags :: "alert_params \<Rightarrow> CustomerStats \<Rightarrow> pystr list" where
  "spend_drop_tags p s =
     (let w = cust_windows p s
      in if prev_90 w > 0 \<and> days_90 w \<le> prev_90 w * drop_threshold p
         then [TAG_SPEND_DROP] else [])"

definition refund_spike_tags :: "CustomerStats \<Rightarrow> pystr list" where
  "refund_spike_tags s = (if refund_spike s then [TAG_REFUND_SPIKE] else [])"

definition anniversary_tags :: "alert_params \<Rightarrow> CustomerStats \<Rightarrow> pystr list" where
  "anniversary_tags p s =
     (if cust_anniversary_match p s
         \<and> TAG_ANNIVERSARY \<notin> set (churn_tags p s @ spend_drop_tags p s @ refund_spike_tags s)
      then [TAG_ANNIVERSARY] else [])"

definition high_value_active_tags :: "alert_params \<Rightarrow> CustomerStats \<Rightarrow> pystr list" where
  "high_value_active_tags p s =
     (if churn_tags p s @ spend_drop_tags p s @ refund_spike_tags s @ anniversary_tags p s = []
         \<and> net_total s \<ge> high_value_threshold p
         \<and> some_and (cust_days_since p s) (\<lambda>d. d < max 30 (cust_short_term_threshold p s))
      then [TAG_HIGH_VALUE_ACTIVE] else [])"

definition cust_tags :: "alert_params \<Rightarrow> CustomerStats \<Rightarrow> pystr list" where
  "cust_tags p s =
     churn_tags p s @ spend_drop_tags p s @ refund_spike_tags s @ anniversary_tags p s
       @ high_value_active_tags p s"

definition cust_tags_text :: "alert_params \<Rightarrow> CustomerStats \<Rightarrow> pystr" where
  "cust_tags_text p s = py_join [44, 32] (cust_tags p s)"

definition cust_return_rate :: "CustomerStats \<Rightarrow> real option" where
  "cust_return_rate s =
     (if orders s > 0 then Some (min (real (refund_count s) / real (max (orders s) 1)) 1)
      else if refund_count s > 0 then Some 1
      else None)"

definition use_premium_uplift :: "alert_params \<Rightarrow> CustomerStats \<Rightarrow> bool" where
  "use_premium_uplift p s =
     (real (orders s) \<ge> defaults_get (config_model p) ''uplift_premium_min_orders'' 3
      \<and> some_and (cust_return_rate s)
           (\<lambda>r. r < defaults_get (config_model p) ''uplift_premium_max_return'' (3 / 10))
      \<and> (case (first_order s, last_order s) of
            (Some f, Some l) \<Rightarrow>
              of_int (l - f) \<ge> defaults_get (config_model p) ''uplift_premium_min_days_span'' 30
          | _ \<Rightarrow> False))"

definition effective_uplift_cap :: "alert_params \<Rightarrow> CustomerStats \<Rightarrow> real option" where
  "effective_uplift_cap p s =
     (let uplift_cap = p_max_estimated_uplift (cust_category_profile p s)
      in if use_premium_uplift p s
         then Some (min (defaults_get (config_model p) ''uplift_ceiling_premium'' (35 / 10)) uplift_cap)
         else Some uplift_cap)"

definition cust_avg_order_value :: "CustomerStats \<Rightarrow> real" where
  "cust_avg_order_value s = (if orders s \<noteq> 0 then net_total s / real (orders s) else 0)"

definition cust_estimated_uplift :: "alert_params \<Rightarrow> CustomerStats \<Rightarrow> real" where
  "cust_estimated_uplift p s =
     estimate_uplift (cust_days_since p s) (Some (long_term_threshold_of p s)) (config_model p)
       (effective_uplift_cap p s) (Some (int (orders s))) (cust_return_rate s)
       (cust_avg_order_value s)"

definition cust_estimated_margin :: "alert_params \<Rightarrow> CustomerStats \<Rightarrow> real" where
  "cust_estimated_margin p s =
     (let avg_profit_per_order =
            (if orders s \<noteq> 0 \<and> profit_total s > 0 then profit_total s / real (orders s) else 0);
          m1 = (if avg_profit_per_order > 0 then avg_profit_per_order
                else cust_avg_order_value s * p_gross_margin (cust_category_profile p s));
          m2 = max 0 m1
      in if cust_margin_cap p s > 0 then min m2 (cust_margin_cap p s) else m2)"

definition cust_estimated_return_rate :: "alert_params \<Rightarrow> CustomerStats \<Rightarrow> real" where
  "cust_estimated_return_rate p s =
     (let expected_return = p_expected_return_rate (cust_category_profile p s)
      in case cust_return_rate s of
           Some observed_return \<Rightarrow>
             if orders s \<ge> 3
             then min (95 / 100) ((7 / 10) * observed_return + (3 / 10) * expected_return)
             else min (95 / 100) (max observed_return expected_return)
         | None \<Rightarrow> min (95 / 100) expected_return)"

definition cust_touch_cost :: "alert_params \<Rightarrow> CustomerStats \<Rightarrow> real" where
  "cust_touch_cost p s =
     max 0 (platform_cost (config_model p) (cust_top_platform s)
              (p_touch_cost (cust_category_profile p s)))"

definition cust_clv :: "alert_params \<Rightarrow> CustomerStats \<Rightarrow> real \<times> pystr \<times> pystr" where
  "cust_clv p s =
     compute_customer_lifecycle_value s (cust_windows p s) (today p) (cust_category_profile p s)"

definition cust_clv_score :: "alert_params \<Rightarrow> CustomerStats \<Rightarrow> real" where
  "cust_clv_score p s = fst (cust_clv p s)"

definition cust_growth_type :: "alert_params \<Rightarrow> CustomerStats \<Rightarrow> pystr" where
  "cust_growth_type p s = fst (snd (cust_clv p s))"

definition cust_potential_label :: "alert_params \<Rightarrow> CustomerStats \<Rightarrow> pystr" where
  "cust_potential_label p s = snd (snd (cust_clv p s))"

definition priority_score_pre_weight :: "alert_params \<Rightarrow> CustomerStats \<Rightarrow> real" where
  "priority_score_pre_weight p s =
     cust_estimated_uplift p s * cust_estimated_margin p s * (1 - cust_estimated_return_rate p s)
       - cust_touch_cost p s"

subsection \<open>Boosts, penalties and the final score\<close>

definition clv_boost :: "alert_params \<Rightarrow> CustomerStats \<Rightarrow> real" where
  "clv_boost p s =
     (if cust_potential_label p s = LABEL_STAR then 30
      else if cust_potential_label p s = LABEL_POTENTIAL then 15
      else if orders s \<ge> 10 then 40
      else if orders s \<ge> 7 then 30
      else if orders s \<ge> 5 then 20
      else if orders s \<ge> 4 then 10
      else if orders s \<ge> 3 then 5
      else 0)"

definition return_rate_boost :: "CustomerStats \<Rightarrow> real" where
  "return_rate_boost s =
     (case cust_return_rate s of
        None \<Rightarrow> 0
      | Some r \<Rightarrow>
          if r \<ge> 49 / 100 then - 80
          else if r \<le> 0 then 20
          else if r < 1 / 10 then 15
          else if r < 2 / 10 then 10
          else if r < 3 / 10 then 5
          else 0)"

definition aov_boost :: "CustomerStats \<Rightarrow> real" where
  "aov_boost s =
     (let avg_order_value_calc = cust_avg_order_value s
      in if avg_order_value_calc > 500 then 25
         else if avg_order_value_calc > 400 then 15
         else if avg_order_value_calc > 300 then 10
         else if avg_order_value_calc > 200 then 5
         else 0)"

definition activity_boost :: "alert_params \<Rightarrow> CustomerStats \<Rightarrow> real" where
  "activity_boost p s =
     (if some_and (cust_days_since p s) (\<lambda>d. d < 45) then
        (if orders s \<ge> 3 \<and> some_and (cust_return_rate s) (\<lambda>r. r < 2 / 10) then 50
         else if orders s \<ge> 2 \<and> some_and (cust_return_rate s) (\<lambda>r. r < 3 / 10) then 30
         else 0)
      else 0)"

definition platform_quality :: "(pystr \<times> real) list" where
  "platform_quality =
     [([30456, 20876], 15), ([19977, 24215], 15), ([20108, 24215], 10), ([22235, 24215], 8),
      ([19968, 24215], 5), ([21688, 40060], - 5), ([21688, 40060, 20108], - 5),
      (PLATFORM_DAIFA, - 10)]"

definition platform_boost :: "CustomerStats \<Rightarrow> real" where
  "platform_boost s =
     (if truthy (cust_top_platform s)
      then (case map_of platform_quality (the (cust_top_platform s)) of
              None \<Rightarrow> 0 | Some v \<Rightarrow> v)
      else 0)"

definition high_freq_boost :: "CustomerStats \<Rightarrow> real" where
  "high_freq_boost s =
     (if some_and (cust_personal_cycle_days s) (\<lambda>c. c < 30)
         \<and> cust_top_platform s \<noteq> Some PLATFORM_DAIFA
      then (if cust_avg_order_value s > 300 then 60 else 40)
      else 0)"

definition super_vip_boost :: "CustomerStats \<Rightarrow> real" where
  "super_vip_boost s =
     (if orders s \<ge> 10 \<and> none_or (cust_return_rate s) (\<lambda>r. r < 2 / 10) then 80
      else if orders s \<ge> 7 \<and> none_or (cust_return_rate s) (\<lambda>r. r < 15 / 100) then 60
      else if orders s \<ge> 5 \<and> none_or (cust_return_rate s) (\<lambda>r. r < 1 / 10) then 40
      else 0)"

definition timing_window_boost :: "alert_params \<Rightarrow> CustomerStats \<Rightarrow> real" where
  "timing_window_boost p s =
     calculate_timing_boost (cust_days_since p s) (cust_personal_cycle_days s) s
       (cust_return_rate s) (config_model p)"

definition long_dormant_penalty :: "alert_params \<Rightarrow> CustomerStats \<Rightarrow> real" where
  "long_dormant_penalty p s =
     (if some_and (cust_days_since p s) (\<lambda>d. d \<ge> 180) then
        (if orders s = 2 then - 100
         else if orders s = 3 then - 60
         else if orders s = 4 then - 40
         else 0)
      else 0)"

definition total_boost :: "alert_params \<Rightarrow> CustomerStats \<Rightarrow> real" where
  "total_boost p s =
     clv_boost p s + return_rate_boost s + aov_boost s + activity_boost p s + platform_boost s
       + high_freq_boost s + super_vip_boost s + timing_window_boost p s
       + of_int (exchange_penalty s) + long_dormant_penalty p s"

definition priority_score_unbounded :: "alert_params \<Rightarrow> CustomerStats \<Rightarrow> real" where
  "priority_score_unbounded p s =
     priority_score_pre_weight p s * orders_weight (config_model p) (orders s) + total_boost p s"

definition priority_score_clamped :: "alert_params \<Rightarrow> CustomerStats \<Rightarrow> real" where
  "priority_score_clamped p s =
     (let lower_bound = fst (priority_bounds (config_model p));
          upper_bound = snd (priority_bounds (config_model p))
      in min upper_bound (max lower_bound (priority_score_unbounded p s)))"

definition priority_score_of :: "alert_params \<Rightarrow> CustomerStats \<Rightarrow> real" where
  "priority_score_of p s = py_round (priority_score_clamped p s) 2"

subsection \<open>Contact log\<close>

definition no_reply_keywords :: "pystr list" where
  "no_reply_keywords =
     [[26080, 22238, 22797], [26410, 22238, 22797], [27809, 22238, 22797], [26410, 22238],
      [19981, 22238], [19981, 29702], [25298, 32477], [19981, 38656, 35201],
      [19981, 24819, 35201], [25289, 40657]]"

definition positive_keywords :: "pystr list" where
  "positive_keywords =
     [[24050, 22238, 22797], [26377, 22238, 22797], [24050, 27807, 36890],
      [24050, 32852, 31995], [25104, 20132], [25104, 21333], [24050, 21152], [21152, 24494],
      [21152, 24494, 20449], [24050, 36141, 20080], [24050, 19979, 21333]]"

definition classify_reply_status :: "pystr \<Rightarrow> bool option" where
  "classify_reply_status status =
     (if status = [] then None
      else let text = py_lower (py_strip status)
           in if text = [] then None
              else if list_ex (\<lambda>k. py_in k text) no_reply_keywords then Some False
              else if list_ex (\<lambda>k. py_in k text) positive_keywords then Some True
              else None)"

definition cust_reply_flag :: "alert_params \<Rightarrow> CustomerStats \<Rightarrow> bool option" where
  "cust_reply_flag p s =
     (let ci_status = (case contact_info p (case phone s of None \<Rightarrow> [] | Some ph \<Rightarrow> ph) of
                         None \<Rightarrow> None | Some st \<Rightarrow> st)
      in classify_reply_status (py_strip (case ci_status of None \<Rightarrow> [] | Some t \<Rightarrow> t)))"

definition cust_last_contact_date :: "alert_params \<Rightarrow> CustomerStats \<Rightarrow> pydate option" where
  "cust_last_contact_date p s =
     (if truthy (phone s) then contact_log p (the (phone s)) else None)"

definition cooldown_days_eff :: "alert_params \<Rightarrow> int" where
  "cooldown_days_eff p = max 0 (cooldown_days p)"

text \<open>Whether the last contact lies inside the cooldown window.\<close>

definition within_cooldown :: "alert_params \<Rightarrow> CustomerStats \<Rightarrow> bool" where
  "within_cooldown p s =
     (cooldown_days_eff p > 0
      \<and> some_and (cust_last_contact_date p s) (\<lambda>c. max 0 (today p - c) < cooldown_days_eff p))"

subsection \<open>Output rows\<close>

text \<open>
  The three outputs carry, per customer, the values computed above. The records below
  keep the columns that identify the customer and those that a decision or the final
  ordering reads; the remaining columns of the source are rounded copies of values
  defined above and display texts.
\<close>

record overview_row =
  ov_key :: pystr
  ov_days_since :: "int option"
  ov_priority_score :: real
  ov_timing_window_boost :: real
  ov_orders :: nat
  ov_cancel_count :: nat
  ov_return_rate :: "real option"
  ov_tags_text :: pystr
  ov_clv_score :: real
  ov_growth_type :: pystr
  ov_potential_label :: pystr

record meta_entry =
  m_priority_bucket :: pystr
  m_priority_class :: pystr
  m_priority_score :: real
  m_customer_value :: pystr
  m_orders :: nat
  m_return_rate :: "real option"
  m_days :: "int option"

record action_row =
  customer_list :: pystr
  ar_priority_bucket :: pystr
  ar_priority_class :: pystr
  ar_priority_score :: real
  ar_priority_score_raw :: real
  ar_priority_score_unbounded :: real
  ar_priority_score_pre_weight :: real
  ar_tags :: pystr
  ar_customer_value :: pystr
  ar_growth_type :: pystr
  ar_potential_label :: pystr
  ar_orders :: nat
  ar_return_rate :: "real option"
  ar_days :: "int option"
  ar_aov :: "real option"
  ar_detail_key :: pystr

record alert_output =
  overview_rows :: "overview_row list"
  action_rows :: "action_row list"
  snoozed_total :: nat
  meta_map :: "pystr \<rightharpoonup> meta_entry"
  cooldown_customers :: "pystr \<rightharpoonup> pydate"

definition cust_customer_value :: "CustomerStats \<Rightarrow> pystr" where
  "cust_customer_value s =
     classify_customer_value (net_total s) (orders s) (cust_avg_order_value s)"

definition overview_row_of :: "alert_params \<Rightarrow> CustomerStats \<Rightarrow> overview_row" where
  "overview_row_of p s =
     \<lparr>ov_key = key s,
      ov_days_since = cust_days_since p s,
      ov_priority_score = priority_score_of p s,
      ov_timing_window_boost = timing_window_boost p s,
      ov_orders = orders s,
      ov_cancel_count = cancel_count s,
      ov_return_rate = map_option (\<lambda>r. py_round r 4) (cust_return_rate s),
      ov_tags_text = cust_tags_text p s,
      ov_clv_score = py_round (cust_clv_score p s) 2,
      ov_growth_type = cust_growth_type p s,
      ov_potential_label = cust_potential_label p s\<rparr>"

definition meta_entry_of :: "alert_params \<Rightarrow> CustomerStats \<Rightarrow> meta_entry" where
  "meta_entry_of p s =
     \<lparr>m_priority_bucket = fst (bucket_priority_score (priority_score_clamped p s)),
      m_priority_class = snd (bucket_priority_score (priority_score_clamped p s)),
      m_priority_score = priority_score_of p s,
      m_customer_value = cust_customer_value s,
      m_orders = orders s,
      m_return_rate = cust_return_rate s,
      m_days = cust_days_since p s\<rparr>"

subsection \<open>The contact worklist\<close>

definition include_in_action :: "alert_params \<Rightarrow> CustomerStats \<Rightarrow> bool" where
  "include_in_action p s =
     (if cust_tags p s \<noteq> [] \<and> \<not> (anniversary_only p \<and> \<not> cust_anniversary_match p s) then True
      else if cust_potential_label p s \<in> {LABEL_STAR, LABEL_POTENTIAL} then True
      else if priority_score_of p s \<ge> 50 then True
      else if orders s \<ge> 5 then True
      else if cust_growth_type p s \<in> {GROWTH_GROWING, GROWTH_HIGH_POTENTIAL_NEW} then True
      else False)"

text \<open>The four eligibility filters applied to a customer that is not in cooldown.\<close>

definition recent_buyer_excluded :: "alert_params \<Rightarrow> CustomerStats \<Rightarrow> bool" where
  "recent_buyer_excluded p s =
     some_and (cust_days_since p s) (\<lambda>d. d < max 0 (exclude_recent_days p))"

definition high_return_excluded :: "alert_params \<Rightarrow> CustomerStats \<Rightarrow> bool" where
  "high_return_excluded p s =
     (\<not> allow_high_return p \<and> some_and (cust_return_rate s) (\<lambda>r. r \<ge> 49 / 100))"

definition single_order_excluded :: "alert_params \<Rightarrow> CustomerStats \<Rightarrow> bool" where
  "single_order_excluded p s =
     (orders s = 1
      \<and> \<not> allow_single_order (config_model p) (prev_month p) (last_order s) (today p))"

definition presumed_lost_excluded :: "alert_params \<Rightarrow> CustomerStats \<Rightarrow> bool" where
  "presumed_lost_excluded p s =
     (cust_potential_label p s \<noteq> LABEL_STAR
      \<and> some_and (cust_days_since p s) (\<lambda>d. d > long_term_threshold_of p s * 3))"

definition filtered_out :: "alert_params \<Rightarrow> CustomerStats \<Rightarrow> bool" where
  "filtered_out p s =
     (recent_buyer_excluded p s \<or> high_return_excluded p s \<or> single_order_excluded p s
      \<or> presumed_lost_excluded p s)"

definition cust_customer_list :: "alert_params \<Rightarrow> CustomerStats \<Rightarrow> bool \<Rightarrow> pystr" where
  "cust_customer_list p s in_cooldown =
     (if in_cooldown then LIST_COOLDOWN
      else classify_customer_list (cust_personal_cycle_days s) (cust_avg_order_value s)
             (cust_top_platform s) (orders s) (cust_return_rate s) (cust_potential_label p s)
             (cust_days_since p s) (net_total s) (cust_tags_text p s) (priority_score_of p s)
             (long_term_threshold_of p s))"

definition action_row_of :: "alert_params \<Rightarrow> CustomerStats \<Rightarrow> bool \<Rightarrow> action_row" where
  "action_row_of p s in_cooldown =
     \<lparr>customer_list = cust_customer_list p s in_cooldown,
      ar_priority_bucket = fst (bucket_priority_score (priority_score_clamped p s)),
      ar_priority_class = snd (bucket_priority_score (priority_score_clamped p s)),
      ar_priority_score = priority_score_of p s,
      ar_priority_score_raw = priority_score_of p s,
      ar_priority_score_unbounded = py_round (priority_score_unbounded p s) 2,
      ar_priority_score_pre_weight = py_round (priority_score_pre_weight p s) 2,
      ar_tags = cust_tags_text p s,
      ar_customer_value = cust_customer_value s,
      ar_growth_type = cust_growth_type p s,
      ar_potential_label = cust_potential_label p s,
      ar_orders = orders s,
      ar_return_rate = cust_return_rate s,
      ar_days = cust_days_since p s,
      ar_aov = (if orders s \<noteq> 0 then Some (net_total s / real (orders s)) else None),
      ar_detail_key = key s\<rparr>"

text \<open>
  What the loop body does for one customer after the overview row and the meta entry
  are written: nothing, a snooze (counted, no row), or a new action row.
\<close>

definition note_cooldown :: "alert_params \<Rightarrow> CustomerStats \<Rightarrow> alert_output \<Rightarrow> alert_output" where
  "note_cooldown p s out =
     out\<lparr>snoozed_total := snoozed_total out + 1,
         cooldown_customers := (cooldown_customers out)(key s \<mapsto> the (cust_last_contact_date p s))\<rparr>"

definition action_stage :: "alert_params \<Rightarrow> alert_output \<Rightarrow> CustomerStats \<Rightarrow> alert_output" where
  "action_stage p out s =
     (if \<not> include_in_action p s then out
      else if cust_last_contact_date p s \<noteq> None \<and> cust_reply_flag p s = Some False then out
      else
        (let in_cooldown = within_cooldown p s;
             out1 = (if in_cooldown then note_cooldown p s out else out)
         in if \<not> in_cooldown \<and> filtered_out p s then out1
            else out1\<lparr>action_rows := action_rows out1 @ [action_row_of p s in_cooldown]\<rparr>))"

definition customer_step :: "alert_params \<Rightarrow> alert_output \<Rightarrow> CustomerStats \<Rightarrow> alert_output" where
  "customer_step p out s =
     (if orders s = 0 then out
      else
        (let out1 = out\<lparr>overview_rows := overview_rows out @ [overview_row_of p s],
                        meta_map := (meta_map out)(key s \<mapsto> meta_entry_of p s)\<rparr>
         in if cooldown_scope p = SCOPE_ALL \<and> cooldown_days_eff p > 0
               \<and> cust_last_contact_date p s \<noteq> None
            then (if cust_reply_flag p s = Some False then out1
                  else if within_cooldown p s then note_cooldown p s out1
                  else action_stage p out1 s)
            else action_stage p out1 s))"

text \<open>The key of \<^verbatim>\<open>action_sort_key\<close>; tuples compare lexicographically.\<close>

definition action_sort_key :: "action_row \<Rightarrow> real \<times> int \<times> real \<times> real" where
  "action_sort_key entry =
     (let score = ar_priority_score_raw entry;
          orders_value = - int (ar_orders entry);
          rate_value = (case ar_return_rate entry of Some r \<Rightarrow> r | None \<Rightarrow> 11 / 10);
          aov_value = (case ar_aov entry of Some a \<Rightarrow> a | None \<Rightarrow> 0)
      in (- score, orders_value, rate_value, - aov_value))"

definition alert_output_init :: alert_output where
  "alert_output_init =
     \<lparr>overview_rows = [], action_rows = [], snoozed_total = 0,
      meta_map = Map.empty, cooldown_customers = Map.empty\<rparr>"

text \<open>
  \<^verbatim>\<open>build_alert_rows\<close> on the customers in the iteration order of the dictionary; the
  final sort is stable, as \<^verbatim>\<open>list.sort\<close> is.
\<close>

definition build_alert_rows :: "alert_params \<Rightarrow> CustomerStats list \<Rightarrow> alert_output" where
  "build_alert_rows p customers =
     (let out = foldl (customer_step p) alert_output_init customers
      in out\<lparr>action_rows := sort_key action_sort_key (action_rows out)\<rparr>)"

section \<open>Reference inputs\<close>

text \<open>
  The configuration that \<^verbatim>\<open>ConfigModel\<close> builds from an empty configuration file, and
  run parameters for 2024-04-24 (day 739000; the previous month is March 2024).
\<close>

definition default_timing :: timing_boost_params where
  "default_timing =
     \<lparr>enabled = True, window_percentage = 2 / 10, peak_boost = 30, min_orders = 2,
      max_return_rate = 0, gaussian_k = 2\<rparr>"

definition default_config :: ConfigModel where
  "default_config =
     \<lparr>defaults = Map.empty, categories = Map.empty, platform_touch_cost = Map.empty,
      orders_dampening = [], single_order_enabled = False,
      single_order_mode = MODE_PREVIOUS_MONTH, single_order_days = 30,
      alias_map = Map.empty, priority_min = - 50, priority_max = 150,
      timing_window_boost_config = default_timing\<rparr>"

definition default_params :: alert_params where
  "default_params =
     \<lparr>today = 739000, prev_month = (738946, 738976), high_value_threshold = 5000,
      churn_days = 90, churn_multiplier = 2, drop_threshold = 5 / 10,
      config_model = default_config, anniversary_dates = None, anniversary_window = 0,
      anniversary_only = False, contact_log = Map.empty, contact_info = Map.empty,
      cooldown_days = 0, cooldown_scope = SCOPE_ACTION, exclude_recent_days = 30,
      allow_high_return = False\<rparr>"

definition blank_row :: order_row where
  "blank_row =
     \<lparr>name_raw = None, phone_dedup = None, address_raw = None, owner_raw = None,
      platform_raw = None, item_raw = None, manufacturer_raw = None, status_raw = None,
      gross_val = 0, net_val = None, cost_val = None, refund_val = 0,
      refund_status_raw = None, notes_raw = None, refund_type_raw = None,
      refund_reason_raw = None, pay_date = None, order_no_raw = None, return_no_raw = None,
      data_source_raw = None, color_raw = None, size_raw = None\<rparr>"

text \<open>
  Two paid rows of the customer with phone \<^verbatim>\<open>13800000001\<close>; the second carries the
  refund type \<^verbatim>\<open>"huan huo"\<close> (exchange of goods), code points 25442 and 36135.
\<close>

definition phone_one :: pystr where
  "phone_one = [49, 51, 56, 48, 48, 48, 48, 48, 48, 48, 49]"

definition exchange_rows :: "order_row list" where
  "exchange_rows =
     [blank_row\<lparr>phone_dedup := Some phone_one, gross_val := 100, pay_date := Some 738900\<rparr>,
      blank_row\<lparr>phone_dedup := Some phone_one, gross_val := 120, pay_date := Some 738950,
        refund_type_raw := Some [25442, 36135]\<rparr>]"

definition exchange_customer :: CustomerStats where
  "exchange_customer = snd (hd (load_customers exchange_rows))"

text \<open>
  A row with gross amount 0, no cancellation marker and a refund of 50, for a customer
  not seen before.
\<close>

definition zero_gross_refund_row :: order_row where
  "zero_gross_refund_row = blank_row\<lparr>phone_dedup := Some phone_one, refund_val := 50\<rparr>"

text \<open>
  Two paid rows, fifty days apart, without refunds; the last one fifty days before the
  reference date.
\<close>

definition regular_rows :: "order_row list" where
  "regular_rows =
     [blank_row\<lparr>phone_dedup := Some phone_one, gross_val := 100, pay_date := Some 738900\<rparr>,
      blank_row\<lparr>phone_dedup := Some phone_one, gross_val := 120, pay_date := Some 738950\<rparr>]"

definition regular_customer :: CustomerStats where
  "regular_customer = snd (hd (load_customers regular_rows))"

text \<open>The default configuration with a peak boost of 30.001.\<close>

definition fine_peak_config :: ConfigModel where
  "fine_peak_config =
     default_config\<lparr>timing_window_boost_config := default_timing\<lparr>peak_boost := 30001 / 1000\<rparr>\<rparr>"

text \<open>The default configuration with a negative window percentage.\<close>

definition negative_window_config :: ConfigModel where
  "negative_window_config =
     default_config\<lparr>timing_window_boost_config := default_timing\<lparr>window_percentage := - (2 / 10)\<rparr>\<rparr>"

section \<open>Summary of the loop body\<close>

text \<open>
  The rows that one pass of the loop body appends to \<open>action_rows\<close>, as one expression;
  lemma \<open>customer_step_action_rows\<close> below proves that \<open>customer_step\<close> appends exactly
  these.
\<close>

definition hidden_by_global_cooldown :: "alert_params \<Rightarrow> CustomerStats \<Rightarrow> bool" where
  "hidden_by_global_cooldown p s =
     (cooldown_scope p = SCOPE_ALL \<and> cooldown_days_eff p > 0
      \<and> cust_last_contact_date p s \<noteq> None
      \<and> (cust_reply_flag p s = Some False \<or> within_cooldown p s))"

definition emitted_action_rows :: "alert_params \<Rightarrow> CustomerStats \<Rightarrow> action_row list" where
  "emitted_action_rows p s =
     (if orders s = 0 then []
      else if hidden_by_global_cooldown p s then []
      else if \<not> include_in_action p s then []
      else if cust_last_contact_date p s \<noteq> None \<and> cust_reply_flag p s = Some False then []
      else if \<not> within_cooldown p s \<and> filtered_out p s then []
      else [action_row_of p s (within_cooldown p s)])"

text \<open>
  Ten paid rows of 600 each, thirty days apart, the last one thirty days before the
  reference date and carrying a refund of the given amount: ten valid orders and one
  refund event, a return rate of 0.1.
\<close>

definition phone_two :: pystr where
  "phone_two = [49, 51, 56, 48, 48, 48, 48, 48, 48, 48, 50]"

definition paid_row :: "pydate \<Rightarrow> order_row" where
  "paid_row d = blank_row\<lparr>phone_dedup := Some phone_two, gross_val := 600, pay_date := Some d\<rparr>"

definition ten_order_rows :: "real \<Rightarrow> order_row list" where
  "ten_order_rows a =
     map paid_row [738700, 738730, 738760, 738790, 738820, 738850, 738880, 738910, 738940]
     @ [(paid_row 738970)\<lparr>refund_val := a\<rparr>]"

definition ten_order_customer :: "real \<Rightarrow> CustomerStats" where
  "ten_order_customer a = snd (hd (load_customers (ten_order_rows a)))"







section \<open>The claimed order of the worklist\<close>

text \<open>
  The order of \<open>action_rows\<close> in the words of the specification: priority score
  descending; on a tie order count descending; then return rate ascending, an undefined
  return rate after every defined one; then average order value descending.
\<close>

definition rate_before :: "real option \<Rightarrow> real option \<Rightarrow> bool" where
  "rate_before x y =
     (case (x, y) of
        (Some a, Some b) \<Rightarrow> a < b
      | (Some a, None) \<Rightarrow> True
      | _ \<Rightarrow> False)"

definition aov_of :: "action_row \<Rightarrow> real" where
  "aov_of a = (case ar_aov a of Some v \<Rightarrow> v | None \<Rightarrow> 0)"

definition claimed_action_order :: "action_row \<Rightarrow> action_row \<Rightarrow> bool" where
  "claimed_action_order a b =
     (ar_priority_score a > ar_priority_score b
      \<or> (ar_priority_score a = ar_priority_score b
         \<and> (ar_orders a > ar_orders b
            \<or> (ar_orders a = ar_orders b
               \<and> (rate_before (ar_return_rate a) (ar_return_rate b)
                  \<or> (ar_return_rate a = ar_return_rate b \<and> aov_of a \<ge> aov_of b))))))"

text \<open>The default configuration and run parameters with an upper score bound of 99.999.\<close>

definition tight_config :: ConfigModel where
  "tight_config = default_config\<lparr>priority_max := 99999 / 1000\<rparr>"

definition tight_params :: alert_params where
  "tight_params = default_params\<lparr>config_model := tight_config\<rparr>"

section \<open>The configured score range\<close>

text \<open>
  What holds of an emitted score \<open>x\<close> under a configuration: it is at most 0.005 outside
  the normalized range, and inside it when both bounds are multiples of 0.01.
\<close>

definition score_respects_bounds :: "ConfigModel \<Rightarrow> real \<Rightarrow> bool" where
  "score_respects_bounds cfg x =
     (let lower = fst (priority_bounds cfg); upper = snd (priority_bounds cfg)
      in lower - 1 / 200 \<le> x \<and> x \<le> upper + 1 / 200
         \<and> (py_round lower 2 = lower \<and> py_round upper 2 = upper \<longrightarrow> lower \<le> x \<and> x \<le> upper))"

section \<open>Time-window partition\<close>

lemma window_add_partition:
  "days_90 w + prev_90 w = days_180 w \<Longrightarrow>
   days_90 (window_add t w e) + prev_90 (window_add t w e) = days_180 (window_add t w e)"
  by (simp add: window_add_def Let_def)

lemma foldl_window_add_partition:
  "days_90 w + prev_90 w = days_180 w \<Longrightarrow>
   days_90 (foldl (window_add t) w es) + prev_90 (foldl (window_add t) w es)
     = days_180 (foldl (window_add t) w es)"
proof (induction es arbitrary: w)
  case Nil
  then show ?case by simp
next
  case (Cons e es)
  have "days_90 (window_add t w e) + prev_90 (window_add t w e)
          = days_180 (window_add t w e)"
    using Cons.prems by (rule window_add_partition)
  then show ?case
    using Cons.IH by simp
qed

text \<open>
  Claim C10. For every order history and every reference date, the sums returned by
  \<^verbatim>\<open>compute_time_windows\<close> satisfy \<open>days_90 + prev_90 = days_180\<close> in exact
  arithmetic: every order inside the 180-day window is counted in exactly one of the
  two 90-day buckets.
\<close>

theorem time_windows_partition:
  "days_90 (compute_time_windows entries t) + prev_90 (compute_time_windows entries t)
     = days_180 (compute_time_windows entries t)"
  unfolding compute_time_windows_def
  by (rule foldl_window_add_partition) (simp add: window_totals_init_def)

section \<open>Evaluation of the reference inputs\<close>

lemmas ingest_defs =
  load_customers_def build_customer_key_def strip_or_empty_def truthy_def process_row_def
  CustomerStats_init_def row_is_cancelled_def row_status_def row_refund_type_text_def
  row_net_def row_cost_def row_profit_def row_detail_def row_is_refund_def
  register_valid_order_def register_cancellation_def register_refund_def bump_counter_def
  isclose_def py_strip_def py_isspace_def CANCEL_MARK_def REFUND_MARK_def blank_row_def
  Let_def

lemma exchange_customer_orders: "orders exchange_customer = 2"
  by (simp add: exchange_customer_def exchange_rows_def phone_one_def ingest_defs)



section \<open>Exchange penalty\<close>



section \<open>VIP detection in the uplift estimate\<close>

text \<open>
  The third VIP condition of \<^verbatim>\<open>estimate_uplift\<close> (at least three orders, average order
  value above 500, return rate below 0.15 or unknown) is reached for three and four
  orders and is subsumed by the first condition from seven orders on.
\<close>

lemma is_vip_three_or_four:
  "orders' \<in> {3, 4} \<Longrightarrow> avg_order_value > 500 \<Longrightarrow> none_or return_rate (\<lambda>r. r < 15 / 100) \<Longrightarrow>
   is_vip (Some orders') return_rate avg_order_value"
  by (cases return_rate) (auto simp: is_vip_def some_and_def none_or_def)

lemma is_vip_seven_up:
  "7 \<le> orders' \<Longrightarrow> none_or return_rate (\<lambda>r. r < 15 / 100) \<Longrightarrow>
   is_vip (Some orders') return_rate avg_order_value"
  by (cases return_rate) (auto simp: is_vip_def some_and_def none_or_def)

text \<open>
  With five or six orders the branch for five orders is taken and the third condition
  is never tested: the customer is a VIP exactly when the return rate is known and
  below 0.1 and the average order value exceeds 400.
\<close>

lemma is_vip_five_or_six:
  "orders' \<in> {5, 6} \<Longrightarrow>
   is_vip (Some orders') return_rate avg_order_value
     = (some_and return_rate (\<lambda>r. r < 1 / 10) \<and> avg_order_value > 400)"
  by (auto simp: is_vip_def some_and_def)


section \<open>Churn thresholds\<close>

lemma short_term_threshold_below:
  "1 < lt \<Longrightarrow> short_term_threshold_of lt < lt
     \<and> short_term_threshold_of lt = max 1 \<lceil>of_int lt / (2 :: real)\<rceil>"
  unfolding short_term_threshold_of_def Let_def
  by (auto simp: ceiling_less_iff ceiling_le_iff max_def) linarith+

text \<open>
  Claim C8. Whenever the long-term threshold of a customer exceeds 1, the short-term
  threshold is strictly smaller; it is half the long-term threshold, rounded up and
  at least 1 (the decrement of the source is then never needed).
\<close>

theorem threshold_ordering:
  "1 < long_term_threshold_of p s \<Longrightarrow>
   cust_short_term_threshold p s < long_term_threshold_of p s
   \<and> cust_short_term_threshold p s = max 1 \<lceil>of_int (long_term_threshold_of p s) / (2 :: real)\<rceil>"
  unfolding cust_short_term_threshold_def by (rule short_term_threshold_below)

lemma exchange_customer_history:
  "order_history exchange_customer = [(738900, 100), (738950, 120)]
   \<and> first_order exchange_customer = Some 738900 \<and> last_order exchange_customer = Some 738950
   \<and> items exchange_customer = []"
  by (simp add: exchange_customer_def exchange_rows_def phone_one_def ingest_defs)

lemma exchange_customer_cycle: "cust_personal_cycle_days exchange_customer = Some 50"
  by (simp add: cust_personal_cycle_days_def exchange_customer_orders exchange_customer_history)

lemmas profile_defs =
  cust_category_profile_def category_profile_of_def resolve_category_name_def cust_top_item_def
  choose_primary_def truthy_def defaults_get_def default_params_def default_config_def

lemma exchange_customer_profile:
  "cust_category_profile default_params exchange_customer =
     \<lparr>p_gross_margin = 3 / 10, p_category_cycle_days = 60, p_expected_return_rate = 8 / 100,
      p_touch_cost = 6, p_max_estimated_margin = 10000, p_max_estimated_uplift = 5\<rparr>"
  by (simp add: profile_defs exchange_customer_history)

lemma exchange_customer_long_term: "long_term_threshold_of default_params exchange_customer = 120"
  by (simp add: long_term_threshold_of_def threshold_candidates_def py_max_def
      cust_category_cycle_def exchange_customer_profile cust_personalized_threshold_def
      exchange_customer_cycle)
     (simp add: default_params_def)

theorem threshold_ordering_witness:
  "1 < long_term_threshold_of default_params exchange_customer
   \<and> cust_short_term_threshold default_params exchange_customer
       < long_term_threshold_of default_params exchange_customer
   \<and> cust_short_term_threshold default_params exchange_customer = 60"
  using threshold_ordering [of default_params exchange_customer]
  by (simp add: exchange_customer_long_term)

section \<open>Rows with a non-positive gross amount\<close>

lemma register_refund_frame:
  "orders (register_refund s a f) = orders s
   \<and> gross_total (register_refund s a f) = gross_total s
   \<and> net_total (register_refund s a f) = net_total s
   \<and> cost_total (register_refund s a f) = cost_total s
   \<and> profit_total (register_refund s a f) = profit_total s
   \<and> order_history (register_refund s a f) = order_history s
   \<and> first_order (register_refund s a f) = first_order s
   \<and> last_order (register_refund s a f) = last_order s
   \<and> items (register_refund s a f) = items s
   \<and> owners (register_refund s a f) = owners s
   \<and> platforms (register_refund s a f) = platforms s
   \<and> cancel_count (register_refund s a f) = cancel_count s
   \<and> order_details (register_refund s a f) = order_details s"
  by (simp add: register_refund_def)

lemma register_refund_forced:
  "refund_count (register_refund s a True) = refund_count s + 1
   \<and> refund_amount (register_refund s a True) = refund_amount s + (if a > 0 then a else 0)"
  by (simp add: register_refund_def)

text \<open>
  Claim C7, as stated, fails: the refund check of the row loop is independent of the
  cancellation check. The row with gross amount 0, no cancellation marker and refund
  amount 50 is counted as a cancellation, and the refund count and the refund amount
  of the customer grow as well.
\<close>

theorem nonpositive_gross_row_refund_counterexample:
  "gross_val zero_gross_refund_row \<le> 0 \<and> \<not> row_is_cancelled zero_gross_refund_row
   \<and> cancel_count (process_row (CustomerStats_init phone_one) zero_gross_refund_row) = 1
   \<and> refund_count (CustomerStats_init phone_one) = 0
   \<and> refund_count (process_row (CustomerStats_init phone_one) zero_gross_refund_row) = 1
   \<and> refund_amount (process_row (CustomerStats_init phone_one) zero_gross_refund_row) = 50"
  by (simp add: zero_gross_refund_row_def phone_one_def ingest_defs)

text \<open>
  Claim C7, amended. A row whose gross amount is at most 0 is a cancellation and not a
  valid order: the cancellation count grows by one, one detail record is appended, and
  the valid-order count, the gross, net, cost and profit totals, the order history, the
  first and last order dates and the item, owner and platform counters stay as they
  were. Independently, when the row is a refund event the refund count grows by one and
  a positive refund amount is added to the refund total.
\<close>

theorem nonpositive_gross_row_effect:
  assumes "gross_val r \<le> 0"
  shows "cancel_count (process_row s r) = cancel_count s + 1
    \<and> (\<exists>d. order_details (process_row s r) = order_details s @ [d])
    \<and> orders (process_row s r) = orders s
    \<and> gross_total (process_row s r) = gross_total s
    \<and> net_total (process_row s r) = net_total s
    \<and> cost_total (process_row s r) = cost_total s
    \<and> profit_total (process_row s r) = profit_total s
    \<and> order_history (process_row s r) = order_history s
    \<and> first_order (process_row s r) = first_order s
    \<and> last_order (process_row s r) = last_order s
    \<and> items (process_row s r) = items s
    \<and> owners (process_row s r) = owners s
    \<and> platforms (process_row s r) = platforms s
    \<and> refund_count (process_row s r) = refund_count s + (if row_is_refund r then 1 else 0)
    \<and> refund_amount (process_row s r)
        = refund_amount s + (if row_is_refund r \<and> refund_val r > 0 then refund_val r else 0)"
  using assms
  by (simp add: process_row_def Let_def register_cancellation_def register_refund_frame
      register_refund_forced)

theorem nonpositive_gross_row_effect_witness:
  "gross_val zero_gross_refund_row \<le> 0
   \<and> cancel_count (process_row (CustomerStats_init phone_one) zero_gross_refund_row) = 1
   \<and> orders (process_row (CustomerStats_init phone_one) zero_gross_refund_row) = 0
   \<and> net_total (process_row (CustomerStats_init phone_one) zero_gross_refund_row) = 0
   \<and> order_history (process_row (CustomerStats_init phone_one) zero_gross_refund_row) = []
   \<and> refund_count (process_row (CustomerStats_init phone_one) zero_gross_refund_row) = 1"
proof -
  have g: "gross_val zero_gross_refund_row \<le> 0"
    by (simp add: zero_gross_refund_row_def blank_row_def)
  have r: "row_is_refund zero_gross_refund_row"
    by (simp add: zero_gross_refund_row_def blank_row_def row_is_refund_def)
  show ?thesis
    using nonpositive_gross_row_effect [OF g, of "CustomerStats_init phone_one"] g r
    by (simp add: CustomerStats_init_def)
qed

section \<open>Rounding to decimals\<close>

lemma round_half_even_bounds:
  "\<lfloor>x\<rfloor> \<le> round_half_even x \<and> round_half_even x \<le> \<lfloor>x\<rfloor> + 1"
  by (simp add: round_half_even_def Let_def)

lemma round_half_even_mono:
  assumes "x \<le> y"
  shows "round_half_even x \<le> round_half_even y"
proof (cases "\<lfloor>x\<rfloor> < \<lfloor>y\<rfloor>")
  case True
  have "round_half_even x \<le> \<lfloor>x\<rfloor> + 1"
    using round_half_even_bounds by blast
  also have "\<dots> \<le> \<lfloor>y\<rfloor>"
    using True by simp
  also have "\<dots> \<le> round_half_even y"
    using round_half_even_bounds by blast
  finally show ?thesis .
next
  case False
  then have eq: "\<lfloor>x\<rfloor> = \<lfloor>y\<rfloor>"
    using floor_mono [OF assms] by linarith
  have "x - of_int \<lfloor>y\<rfloor> \<le> y - of_int \<lfloor>y\<rfloor>"
    using assms by simp
  then show ?thesis
    by (auto simp: round_half_even_def Let_def eq)
qed

lemma round_half_even_of_int: "round_half_even (of_int n) = n"
  by (simp add: round_half_even_def Let_def)

lemma round_half_even_error: "\<bar>of_int (round_half_even x) - x\<bar> \<le> 1 / 2"
proof -
  have "of_int \<lfloor>x\<rfloor> \<le> x" "x < of_int \<lfloor>x\<rfloor> + 1"
    by linarith+
  then show ?thesis
    by (auto simp: round_half_even_def Let_def abs_le_iff)
qed

lemma py_round_mono: "x \<le> y \<Longrightarrow> py_round x n \<le> py_round y n"
proof -
  assume "x \<le> y"
  then have "x * 10 ^ n \<le> y * 10 ^ n"
    by (simp add: mult_right_mono)
  then have "round_half_even (x * 10 ^ n) \<le> round_half_even (y * 10 ^ n)"
    by (rule round_half_even_mono)
  then show ?thesis
    by (simp add: py_round_def divide_right_mono)
qed

lemma py_round_zero: "py_round 0 n = 0"
  by (simp add: py_round_def round_half_even_def)

lemma py_round_error: "\<bar>py_round x n - x\<bar> \<le> 1 / (2 * 10 ^ n)"
proof -
  have pos: "(0::real) < 10 ^ n" by simp
  have "py_round x n - x = (of_int (round_half_even (x * 10 ^ n)) - x * 10 ^ n) / 10 ^ n"
    by (simp add: py_round_def diff_divide_distrib)
  then have "\<bar>py_round x n - x\<bar> = \<bar>of_int (round_half_even (x * 10 ^ n)) - x * 10 ^ n\<bar> / 10 ^ n"
    by (simp add: abs_divide)
  also have "\<dots> \<le> (1 / 2) / 10 ^ n"
    by (rule divide_right_mono [OF round_half_even_error]) simp
  finally show ?thesis by simp
qed

lemma py_round_between:
  "lo \<le> x \<Longrightarrow> x \<le> hi \<Longrightarrow> py_round lo n = lo \<Longrightarrow> py_round hi n = hi \<Longrightarrow>
   lo \<le> py_round x n \<and> py_round x n \<le> hi"
  using py_round_mono [of lo x n] py_round_mono [of x hi n] by simp

section \<open>Timing-window boost\<close>

lemma regular_customer_fields:
  "orders regular_customer = 2 \<and> refund_count regular_customer = 0
   \<and> order_history regular_customer = [(738900, 100), (738950, 120)]
   \<and> first_order regular_customer = Some 738900 \<and> last_order regular_customer = Some 738950
   \<and> map d_refund_type (order_details regular_customer) = [[], []]"
  by (simp add: regular_customer_def regular_rows_def phone_one_def ingest_defs)

lemma regular_customer_exchange_count: "exchange_count regular_customer = 0"
proof -
  have "exchange_count regular_customer =
          length (filter (\<lambda>t. py_in EXCHANGE_MARK (py_strip t))
                    (map d_refund_type (order_details regular_customer)))"
    by (simp add: exchange_count_def filter_map comp_def)
  then show ?thesis
    by (simp add: regular_customer_fields EXCHANGE_MARK_def py_strip_def py_isspace_def)
qed

lemma regular_customer_cycle: "cust_personal_cycle_days regular_customer = Some 50"
  by (simp add: cust_personal_cycle_days_def regular_customer_fields)

lemma regular_customer_return_rate: "cust_return_rate regular_customer = Some 0"
  by (simp add: cust_return_rate_def regular_customer_fields)

lemma regular_customer_days_since: "cust_days_since default_params regular_customer = Some 50"
  by (simp add: cust_days_since_def regular_customer_fields default_params_def)

text \<open>
  Claim C4, amended. For a customer eligible for the timing-window boost (feature
  enabled, days since the last order and personal cycle defined, at least \<open>min_orders\<close>
  orders, no exchange line, return rate unknown or not above \<open>max_return_rate\<close>):
  the boost is exactly 0 when the days since the last order lie strictly outside
  \<open>[c - c w, c + c w]\<close> for the personal cycle \<open>c\<close> and the window percentage \<open>w\<close>; when
  they equal \<open>c\<close> and the window radius \<open>c w\<close> is not negative the boost is
  \<open>peak_boost\<close> rounded to two decimals; and when \<open>peak_boost\<close> and the sharpness are not
  negative no boost exceeds that value.
\<close>

theorem timing_boost_window:
  assumes "enabled (timing_window_boost_config cfg)"
    and "min_orders (timing_window_boost_config cfg) \<le> int (orders s)"
    and "exchange_count s = 0"
    and "none_or return_rate (\<lambda>r. r \<le> max_return_rate (timing_window_boost_config cfg))"
  shows "(of_int d_out < c - c * window_percentage (timing_window_boost_config cfg)
            \<or> of_int d_out > c + c * window_percentage (timing_window_boost_config cfg)
          \<longrightarrow> calculate_timing_boost (Some d_out) (Some c) s return_rate cfg = 0)
       \<and> (of_int d_mid = c \<and> 0 \<le> c * window_percentage (timing_window_boost_config cfg)
          \<longrightarrow> calculate_timing_boost (Some d_mid) (Some c) s return_rate cfg
                = py_round (peak_boost (timing_window_boost_config cfg)) 2)
       \<and> (0 \<le> peak_boost (timing_window_boost_config cfg)
            \<and> 0 \<le> gaussian_k (timing_window_boost_config cfg)
          \<longrightarrow> calculate_timing_boost (Some d) (Some c) s return_rate cfg
                \<le> py_round (peak_boost (timing_window_boost_config cfg)) 2)"
proof -
  let ?tp = "timing_window_boost_config cfg"
  have elig: "\<not> int (orders s) < min_orders ?tp" "\<not> effective_orders s < min_orders ?tp"
    "\<not> some_and return_rate (\<lambda>r. r > max_return_rate ?tp)"
    using assms by (auto simp: effective_orders_def some_and_def none_or_def split: option.splits)
  have out: "calculate_timing_boost (Some d_out) (Some c) s return_rate cfg = 0"
    if "of_int d_out < c - c * window_percentage ?tp \<or> of_int d_out > c + c * window_percentage ?tp"
    using that assms(1,3) elig by (simp add: calculate_timing_boost_def Let_def)
  have mid: "calculate_timing_boost (Some d_mid) (Some c) s return_rate cfg = py_round (peak_boost ?tp) 2"
    if "of_int d_mid = c" "0 \<le> c * window_percentage ?tp"
    using that assms(1,3) elig by (simp add: calculate_timing_boost_def Let_def)
  have le: "calculate_timing_boost (Some d) (Some c) s return_rate cfg \<le> py_round (peak_boost ?tp) 2"
    if pk: "0 \<le> peak_boost ?tp" "0 \<le> gaussian_k ?tp"
  proof -
    have nonneg: "0 \<le> py_round (peak_boost ?tp) 2"
      using py_round_mono [OF pk(1), of 2] by (simp add: py_round_zero)
    have gauss: "py_round (peak_boost ?tp * exp (- gaussian_k ?tp * z ^ 2)) 2 \<le> py_round (peak_boost ?tp) 2" for z :: real
    proof (rule py_round_mono)
      have "0 \<le> gaussian_k ?tp * z ^ 2" using pk(2) by simp
      then have "exp (- gaussian_k ?tp * z ^ 2) \<le> 1" by simp
      then show "peak_boost ?tp * exp (- gaussian_k ?tp * z ^ 2) \<le> peak_boost ?tp"
        using pk(1) mult_left_le by blast
    qed
    show ?thesis
      using assms(1,3) elig nonneg gauss
      by (simp add: calculate_timing_boost_def Let_def)
  qed
  from out mid le show ?thesis by blast
qed

lemma default_timing_fields:
  "timing_window_boost_config default_config = default_timing
   \<and> enabled default_timing \<and> min_orders default_timing = 2
   \<and> max_return_rate default_timing = 0 \<and> window_percentage default_timing = 2 / 10
   \<and> peak_boost default_timing = 30 \<and> gaussian_k default_timing = 2"
  by (simp add: default_config_def default_timing_def)

lemma py_round_30: "py_round 30 2 = 30"
  by (simp add: py_round_def round_half_even_def)

text \<open>
  Claim C4, as stated, fails at the centre of the window. The result of
  \<^verbatim>\<open>calculate_timing_boost\<close> is rounded to two decimals, so a peak boost of 30.001 gives
  30 for the customer whose last order lies exactly one personal cycle (50 days) back;
  and with a negative window percentage the window is empty, so the same customer gets 0.
\<close>

theorem timing_boost_centre_counterexample:
  "enabled (timing_window_boost_config fine_peak_config)
   \<and> min_orders (timing_window_boost_config fine_peak_config) \<le> int (orders regular_customer)
   \<and> exchange_count regular_customer = 0
   \<and> cust_return_rate regular_customer = Some 0
   \<and> max_return_rate (timing_window_boost_config fine_peak_config) = 0
   \<and> cust_days_since default_params regular_customer = Some 50
   \<and> cust_personal_cycle_days regular_customer = Some 50
   \<and> peak_boost (timing_window_boost_config fine_peak_config) = 30001 / 1000
   \<and> calculate_timing_boost (Some 50) (Some 50) regular_customer (Some 0) fine_peak_config = 30
   \<and> enabled (timing_window_boost_config negative_window_config)
   \<and> peak_boost (timing_window_boost_config negative_window_config) = 30
   \<and> calculate_timing_boost (Some 50) (Some 50) regular_customer (Some 0)
        negative_window_config = 0"
  by (simp add: calculate_timing_boost_def fine_peak_config_def negative_window_config_def
      default_timing_fields default_timing_def effective_orders_def some_and_def
      regular_customer_exchange_count regular_customer_fields regular_customer_cycle
      regular_customer_return_rate regular_customer_days_since py_round_def
      round_half_even_def Let_def)

theorem timing_boost_window_witness:
  "enabled (timing_window_boost_config default_config)
   \<and> min_orders (timing_window_boost_config default_config) \<le> int (orders regular_customer)
   \<and> exchange_count regular_customer = 0
   \<and> calculate_timing_boost (Some 100) (Some 50) regular_customer (Some 0) default_config = 0
   \<and> calculate_timing_boost (Some 50) (Some 50) regular_customer (Some 0) default_config = 30
   \<and> calculate_timing_boost (Some 45) (Some 50) regular_customer (Some 0) default_config \<le> 30"
  using timing_boost_window [of default_config regular_customer "Some 0" 100 50 50 45]
  by (simp add: default_timing_fields regular_customer_fields regular_customer_exchange_count
      none_or_def py_round_30)

section \<open>Structure of the output of the row builder\<close>

lemma note_cooldown_rows:
  "overview_rows (note_cooldown p s out) = overview_rows out
   \<and> action_rows (note_cooldown p s out) = action_rows out
   \<and> meta_map (note_cooldown p s out) = meta_map out"
  by (simp add: note_cooldown_def)

lemma action_stage_rows:
  "overview_rows (action_stage p out s) = overview_rows out
   \<and> meta_map (action_stage p out s) = meta_map out"
  by (simp add: action_stage_def Let_def note_cooldown_rows)

lemma customer_step_overview_rows:
  "overview_rows (customer_step p out s)
     = overview_rows out @ (if orders s = 0 then [] else [overview_row_of p s])"
  by (simp add: customer_step_def Let_def action_stage_rows note_cooldown_rows)

lemma customer_step_meta_map:
  "meta_map (customer_step p out s)
     = (if orders s = 0 then meta_map out else (meta_map out)(key s \<mapsto> meta_entry_of p s))"
  by (simp add: customer_step_def Let_def action_stage_rows note_cooldown_rows)

lemma action_stage_action_rows:
  "action_rows (action_stage p out s)
     = action_rows out
       @ (if \<not> include_in_action p s then []
          else if cust_last_contact_date p s \<noteq> None \<and> cust_reply_flag p s = Some False then []
          else if \<not> within_cooldown p s \<and> filtered_out p s then []
          else [action_row_of p s (within_cooldown p s)])"
  by (simp add: action_stage_def Let_def note_cooldown_rows)

lemma customer_step_action_rows:
  "action_rows (customer_step p out s) = action_rows out @ emitted_action_rows p s"
  by (auto simp: customer_step_def Let_def action_stage_action_rows note_cooldown_rows
      emitted_action_rows_def hidden_by_global_cooldown_def)

lemma foldl_customer_step_action_rows:
  "action_rows (foldl (customer_step p) out cs)
     = action_rows out @ concat (map (emitted_action_rows p) cs)"
  by (induction cs arbitrary: out) (simp_all add: customer_step_action_rows)

lemma foldl_customer_step_overview_rows:
  "overview_rows (foldl (customer_step p) out cs)
     = overview_rows out @ map (overview_row_of p) (filter (\<lambda>s. orders s \<noteq> 0) cs)"
  by (induction cs arbitrary: out) (simp_all add: customer_step_overview_rows)

lemma foldl_customer_step_meta_map:
  "meta_map (foldl (customer_step p) out cs) k = Some m \<Longrightarrow>
   meta_map out k = Some m \<or> (\<exists>s \<in> set cs. orders s \<noteq> 0 \<and> m = meta_entry_of p s)"
proof (induction cs arbitrary: out)
  case Nil
  then show ?case by simp
next
  case (Cons c cs)
  from Cons.IH [of "customer_step p out c"] Cons.prems
  have "meta_map (customer_step p out c) k = Some m
        \<or> (\<exists>s \<in> set cs. orders s \<noteq> 0 \<and> m = meta_entry_of p s)"
    by simp
  then show ?case
    by (auto simp: customer_step_meta_map split: if_splits)
qed

lemma build_alert_rows_action_rows:
  "action_rows (build_alert_rows p cs)
     = sort_key action_sort_key (concat (map (emitted_action_rows p) cs))"
  by (simp add: build_alert_rows_def Let_def foldl_customer_step_action_rows
      alert_output_init_def)

lemma build_alert_rows_overview_rows:
  "overview_rows (build_alert_rows p cs)
     = map (overview_row_of p) (filter (\<lambda>s. orders s \<noteq> 0) cs)"
  by (simp add: build_alert_rows_def Let_def foldl_customer_step_overview_rows
      alert_output_init_def)

lemma build_alert_rows_meta_map:
  "meta_map (build_alert_rows p cs) k = Some m \<Longrightarrow>
   \<exists>s \<in> set cs. orders s \<noteq> 0 \<and> m = meta_entry_of p s"
  using foldl_customer_step_meta_map [of p alert_output_init cs k m]
  by (simp add: build_alert_rows_def Let_def alert_output_init_def)

lemma emitted_action_rows_cases:
  "a \<in> set (emitted_action_rows p s) \<Longrightarrow>
   orders s \<noteq> 0 \<and> a = action_row_of p s (within_cooldown p s)"
  by (auto simp: emitted_action_rows_def split: if_splits)

lemma build_alert_rows_action_row:
  "a \<in> set (action_rows (build_alert_rows p cs)) \<Longrightarrow>
   \<exists>s \<in> set cs. orders s \<noteq> 0 \<and> a = action_row_of p s (within_cooldown p s)"
  by (auto simp: build_alert_rows_action_rows dest: emitted_action_rows_cases)

section \<open>Tags\<close>

lemmas tag_defs =
  TAG_REFUND_SPIKE_def TAG_HIGH_VALUE_CHURN_def TAG_LONG_TERM_def TAG_SHORT_TERM_def
  TAG_SPEND_DROP_def TAG_ANNIVERSARY_def TAG_HIGH_VALUE_ACTIVE_def

lemma tag_list_shapes:
  "churn_tags p s \<in> {[], [TAG_HIGH_VALUE_CHURN], [TAG_LONG_TERM], [TAG_SHORT_TERM]}"
  "spend_drop_tags p s \<in> {[], [TAG_SPEND_DROP]}"
  "anniversary_tags p s \<in> {[], [TAG_ANNIVERSARY]}"
  "high_value_active_tags p s \<in> {[], [TAG_HIGH_VALUE_ACTIVE]}"
  by (simp_all add: churn_tags_def spend_drop_tags_def anniversary_tags_def
      high_value_active_tags_def Let_def split: option.splits)

lemma py_in_spike_shape:
  assumes "a \<in> {[], [TAG_HIGH_VALUE_CHURN], [TAG_LONG_TERM], [TAG_SHORT_TERM]}"
    and "b \<in> {[], [TAG_SPEND_DROP]}" and "c \<in> {[], [TAG_ANNIVERSARY]}"
    and "d \<in> {[], [TAG_HIGH_VALUE_ACTIVE]}"
  shows "py_in TAG_REFUND_SPIKE (py_join [44, 32] (a @ b @ (if sp then [TAG_REFUND_SPIKE] else []) @ c @ d)) = sp"
  using assms by (cases sp) (auto simp: tag_defs)

lemma tags_text_refund_spike:
  "py_in TAG_REFUND_SPIKE (cust_tags_text p s) = refund_spike s"
  unfolding cust_tags_text_def cust_tags_def refund_spike_tags_def
  by (rule py_in_spike_shape) (rule tag_list_shapes)+

section \<open>Evaluation of the ten-order customer\<close>

lemma ten_order_customer_fields:
  assumes "0 < a"
  shows "orders (ten_order_customer a) = 10"
    "refund_count (ten_order_customer a) = 1"
    "refund_amount (ten_order_customer a) = a"
    "net_total (ten_order_customer a) = 6000"
    "profit_total (ten_order_customer a) = 0"
    "first_order (ten_order_customer a) = Some 738700"
    "last_order (ten_order_customer a) = Some 738970"
    "phone (ten_order_customer a) = Some phone_two"
    "key (ten_order_customer a) = phone_two"
    "items (ten_order_customer a) = []"
    "platforms (ten_order_customer a) = []"
    "order_history (ten_order_customer a) =
       [(738700, 600), (738730, 600), (738760, 600), (738790, 600), (738820, 600),
        (738850, 600), (738880, 600), (738910, 600), (738940, 600), (738970, 600)]"
    "map d_refund_type (order_details (ten_order_customer a)) =
       [[], [], [], [], [], [], [], [], [], []]"
  using assms
  by (simp_all add: ten_order_customer_def ten_order_rows_def paid_row_def phone_two_def
      ingest_defs)

lemma ten_order_customer_exchange_count:
  assumes "0 < a" shows "exchange_count (ten_order_customer a) = 0"
proof -
  have "exchange_count (ten_order_customer a) =
          length (filter (\<lambda>t. py_in EXCHANGE_MARK (py_strip t))
                    (map d_refund_type (order_details (ten_order_customer a))))"
    by (simp add: exchange_count_def filter_map comp_def)
  then show ?thesis
    by (simp add: ten_order_customer_fields [OF assms] EXCHANGE_MARK_def py_strip_def)
qed

lemma ten_order_customer_return_rate:
  "0 < a \<Longrightarrow> cust_return_rate (ten_order_customer a) = Some (1 / 10)"
  by (simp add: cust_return_rate_def ten_order_customer_fields)

lemma ten_order_customer_refund_spike:
  "0 < a \<Longrightarrow> refund_spike (ten_order_customer a) = (1800 \<le> a)"
  by (simp add: refund_spike_def ten_order_customer_fields)

lemma ten_order_customer_cycle:
  "0 < a \<Longrightarrow> cust_personal_cycle_days (ten_order_customer a) = Some 30"
  by (simp add: cust_personal_cycle_days_def ten_order_customer_fields)

lemma ten_order_customer_windows:
  "0 < a \<Longrightarrow> today p = 739000 \<Longrightarrow>
   cust_windows p (ten_order_customer a) =
     \<lparr>days_30 = 600, days_90 = 1800, prev_90 = 1800, days_180 = 3600, days_365 = 6000\<rparr>"
  by (simp add: cust_windows_def compute_time_windows_def window_add_def
      window_totals_init_def ten_order_customer_fields)

text \<open>The category profile of a customer without a favourite item, under a configuration
  without overrides.\<close>

lemma profile_without_item:
  "items s = [] \<Longrightarrow> defaults (config_model p) = Map.empty \<Longrightarrow>
   cust_category_profile p s =
     \<lparr>p_gross_margin = 3 / 10, p_category_cycle_days = 60, p_expected_return_rate = 8 / 100,
      p_touch_cost = 6, p_max_estimated_margin = 10000, p_max_estimated_uplift = 5\<rparr>"
  by (simp add: cust_category_profile_def category_profile_of_def resolve_category_name_def
      cust_top_item_def choose_primary_def truthy_def defaults_get_def)

lemma ten_order_customer_long_term:
  assumes "0 < a" "defaults (config_model p) = Map.empty" "churn_days p = 90" "churn_multiplier p = 2"
  shows "long_term_threshold_of p (ten_order_customer a) = 120"
  using assms
  by (simp add: long_term_threshold_of_def threshold_candidates_def py_max_def
      cust_category_cycle_def profile_without_item ten_order_customer_fields
      cust_personalized_threshold_def ten_order_customer_cycle)

section \<open>The super-VIP scenario\<close>

lemma include_in_action_many_orders: "5 \<le> orders s \<Longrightarrow> include_in_action p s"
  by (simp add: include_in_action_def)

lemma scope_action_not_all: "SCOPE_ACTION \<noteq> SCOPE_ALL"
  by (simp add: SCOPE_ACTION_def SCOPE_ALL_def)

lemma list_labels_distinct:
  "LIST_NEEDS_AUDIT \<noteq> LIST_SUPER_VIP" "LIST_COOLDOWN \<noteq> LIST_SUPER_VIP"
  by (simp_all add: LIST_NEEDS_AUDIT_def LIST_SUPER_VIP_def LIST_COOLDOWN_def)

text \<open>
  Claim C2, amended. For a customer with exactly ten valid orders and a return rate of
  0.1 the scorer applies \<open>super_vip_boost = 80\<close>. The customer's action row carries the
  super-VIP list unless the customer is inside the contact cooldown (then the cooldown
  list) or carries the refund-spike tag, which has precedence in
  \<^verbatim>\<open>classify_customer_list\<close> (then the needs-audit list).
\<close>

theorem super_vip_scenario:
  assumes "orders s = 10" and "cust_return_rate s = Some (1 / 10)"
  shows "super_vip_boost s = 80
    \<and> customer_list (action_row_of p s in_cooldown)
        = (if in_cooldown then LIST_COOLDOWN
           else if refund_spike s then LIST_NEEDS_AUDIT
           else LIST_SUPER_VIP)"
  using assms
  by (simp add: super_vip_boost_def action_row_of_def cust_customer_list_def
      classify_customer_list_def tags_text_refund_spike some_and_def none_or_def)

text \<open>Without a contact log nobody is in cooldown.\<close>

lemma no_contact_log:
  "contact_log p = Map.empty \<Longrightarrow>
   cust_last_contact_date p s = None \<and> \<not> within_cooldown p s"
  by (simp add: cust_last_contact_date_def within_cooldown_def some_and_def)

lemma ten_order_customer_not_filtered:
  assumes "0 < a" "today p = 739000" "defaults (config_model p) = Map.empty"
    "churn_days p = 90" "churn_multiplier p = 2" "exclude_recent_days p = 30"
  shows "\<not> filtered_out p (ten_order_customer a)"
  using assms
  by (simp add: filtered_out_def recent_buyer_excluded_def high_return_excluded_def
      single_order_excluded_def presumed_lost_excluded_def cust_days_since_def
      ten_order_customer_fields ten_order_customer_return_rate ten_order_customer_long_term
      some_and_def)

lemma ten_order_customer_emitted:
  assumes "0 < a" "today p = 739000" "defaults (config_model p) = Map.empty"
    "churn_days p = 90" "churn_multiplier p = 2" "exclude_recent_days p = 30"
    "contact_log p = Map.empty" "cooldown_scope p = SCOPE_ACTION"
  shows "action_rows (build_alert_rows p [ten_order_customer a])
           = [action_row_of p (ten_order_customer a) False]"
  using assms ten_order_customer_not_filtered [of a p] no_contact_log [of p "ten_order_customer a"]
  by (simp add: build_alert_rows_action_rows emitted_action_rows_def
      hidden_by_global_cooldown_def scope_action_not_all include_in_action_many_orders
      ten_order_customer_fields)

lemma default_params_fields:
  "today default_params = 739000" "defaults (config_model default_params) = Map.empty"
  "churn_days default_params = 90" "churn_multiplier default_params = 2"
  "exclude_recent_days default_params = 30" "contact_log default_params = Map.empty"
  "cooldown_scope default_params = SCOPE_ACTION"
  by (simp_all add: default_params_def default_config_def)

lemma ten_order_customer_default_rows:
  "0 < a \<Longrightarrow>
   action_rows (build_alert_rows default_params [ten_order_customer a])
     = [action_row_of default_params (ten_order_customer a) False]"
  by (rule ten_order_customer_emitted) (simp_all add: default_params_fields)

text \<open>
  Claim C2, as stated, fails. The ten-order customer whose single refund amounts to
  2000 of a net spend of 6000 has return rate 0.1 and no exchange line, gets the boost
  of 80, and is put on the needs-audit list: the refund-spike tag is tested first.
\<close>

theorem super_vip_refund_spike_counterexample:
  "orders (ten_order_customer 2000) = 10
   \<and> cust_return_rate (ten_order_customer 2000) = Some (1 / 10)
   \<and> exchange_count (ten_order_customer 2000) = 0
   \<and> super_vip_boost (ten_order_customer 2000) = 80
   \<and> map customer_list (action_rows (build_alert_rows default_params [ten_order_customer 2000]))
       = [LIST_NEEDS_AUDIT]
   \<and> LIST_NEEDS_AUDIT \<noteq> LIST_SUPER_VIP"
  by (simp add: ten_order_customer_default_rows ten_order_customer_fields
      ten_order_customer_return_rate ten_order_customer_exchange_count super_vip_boost_def
      none_or_def some_and_def action_row_of_def cust_customer_list_def classify_customer_list_def
      tags_text_refund_spike ten_order_customer_refund_spike list_labels_distinct)

theorem super_vip_scenario_witness:
  "orders (ten_order_customer 100) = 10
   \<and> cust_return_rate (ten_order_customer 100) = Some (1 / 10)
   \<and> super_vip_boost (ten_order_customer 100) = 80
   \<and> map customer_list (action_rows (build_alert_rows default_params [ten_order_customer 100]))
       = [LIST_SUPER_VIP]"
  using super_vip_scenario [of "ten_order_customer 100" default_params False]
  by (simp add: ten_order_customer_default_rows ten_order_customer_fields
      ten_order_customer_return_rate ten_order_customer_refund_spike)

section \<open>The cooldown scenario\<close>












section \<open>Evaluation of the single-order customer\<close>















section \<open>Order of the worklist\<close>

lemma cust_return_rate_at_most_one: "none_or (cust_return_rate s) (\<lambda>r. 0 \<le> r \<and> r \<le> 1)"
  by (simp add: cust_return_rate_def none_or_def)

lemma action_row_of_invariants:
  "ar_priority_score_raw (action_row_of p s b) = ar_priority_score (action_row_of p s b)"
  "none_or (ar_return_rate (action_row_of p s b)) (\<lambda>r. r \<le> 1)"
  using cust_return_rate_at_most_one [of s]
  by (auto simp: action_row_of_def none_or_def split: option.splits)

lemma sort_key_le_claimed_order:
  assumes "ar_priority_score_raw a = ar_priority_score a"
    and "ar_priority_score_raw b = ar_priority_score b"
    and "none_or (ar_return_rate a) (\<lambda>r. r \<le> 1)"
    and "none_or (ar_return_rate b) (\<lambda>r. r \<le> 1)"
    and "action_sort_key a \<le> action_sort_key b"
  shows "claimed_action_order a b"
  using assms
  by (auto simp: action_sort_key_def claimed_action_order_def rate_before_def aov_of_def
      none_or_def less_eq_prod_def Let_def split: option.splits)

lemma claimed_action_order_total: "claimed_action_order a b \<or> claimed_action_order b a"
  by (auto simp: claimed_action_order_def rate_before_def split: option.splits)

text \<open>
  Claim C9. The \<open>action_rows\<close> returned by \<^verbatim>\<open>build_alert_rows\<close> are ordered by priority
  score descending, ties broken by order count descending, then by return rate
  ascending with an undefined return rate after every defined one, then by average
  order value descending. (Every emitted row has a defined return rate of at most 1, so
  the substitute 1.1 of the sort key orders an undefined rate last.)
\<close>

theorem action_rows_sorted:
  "sorted_wrt claimed_action_order (action_rows (build_alert_rows p cs))"
proof -
  let ?rows = "action_rows (build_alert_rows p cs)"
  have "sorted (map action_sort_key ?rows)"
    by (simp add: build_alert_rows_action_rows)
  then have keys: "sorted_wrt (\<lambda>a b. action_sort_key a \<le> action_sort_key b) ?rows"
    by (simp add: sorted_wrt_map)
  have inv: "ar_priority_score_raw a = ar_priority_score a
             \<and> none_or (ar_return_rate a) (\<lambda>r. r \<le> 1)" if "a \<in> set ?rows" for a
    using build_alert_rows_action_row [OF that] action_row_of_invariants by blast
  show ?thesis
  proof (rule sorted_wrt_mono_rel [OF _ keys])
    fix a b
    assume "a \<in> set ?rows" "b \<in> set ?rows" "action_sort_key a \<le> action_sort_key b"
    then show "claimed_action_order a b"
      using inv sort_key_le_claimed_order by blast
  qed
qed

section \<open>The clamp on the priority score\<close>

lemma priority_bounds_ordered: "fst (priority_bounds cfg) \<le> snd (priority_bounds cfg)"
  by (simp add: priority_bounds_def)

lemma priority_score_clamped_in_range:
  "fst (priority_bounds (config_model p)) \<le> priority_score_clamped p s
   \<and> priority_score_clamped p s \<le> snd (priority_bounds (config_model p))"
  using priority_bounds_ordered [of "config_model p"]
  by (simp add: priority_score_clamped_def Let_def)

lemma priority_score_respects_bounds:
  "score_respects_bounds (config_model p) (priority_score_of p s)"
proof -
  let ?lo = "fst (priority_bounds (config_model p))"
  let ?hi = "snd (priority_bounds (config_model p))"
  let ?c = "priority_score_clamped p s"
  have c: "?lo \<le> ?c" "?c \<le> ?hi"
    using priority_score_clamped_in_range by blast+
  have "\<bar>py_round ?c 2 - ?c\<bar> \<le> 1 / (2 * 10 ^ 2)"
    by (rule py_round_error)
  then have "\<bar>py_round ?c 2 - ?c\<bar> \<le> 1 / 200"
    by simp
  then have near: "?lo - 1 / 200 \<le> py_round ?c 2" "py_round ?c 2 \<le> ?hi + 1 / 200"
    using c by linarith+
  have "?lo \<le> py_round ?c 2 \<and> py_round ?c 2 \<le> ?hi"
    if "py_round ?lo 2 = ?lo" "py_round ?hi 2 = ?hi"
    using py_round_between [OF c that] .
  then show ?thesis
    using near by (simp add: score_respects_bounds_def priority_score_of_def Let_def)
qed

text \<open>
  Claim C1, amended. The unweighted total is clamped into the normalized range
  \<open>[min(priority_min, priority_max), max(priority_min, priority_max)]\<close> and then rounded
  to two decimals. Every score emitted in \<open>overview_rows\<close>, \<open>action_rows\<close> and \<open>meta_map\<close>
  is therefore at most 0.005 outside that range, and inside it whenever both bounds are
  two-decimal values (as the defaults -50 and 150 are).
\<close>

theorem emitted_scores_respect_bounds:
  "(\<forall>r \<in> set (overview_rows (build_alert_rows p cs)).
      score_respects_bounds (config_model p) (ov_priority_score r))
   \<and> (\<forall>a \<in> set (action_rows (build_alert_rows p cs)).
      score_respects_bounds (config_model p) (ar_priority_score a))
   \<and> (\<forall>k m. meta_map (build_alert_rows p cs) k = Some m
      \<longrightarrow> score_respects_bounds (config_model p) (m_priority_score m))"
proof (intro conjI ballI allI impI)
  fix r assume "r \<in> set (overview_rows (build_alert_rows p cs))"
  then obtain s where "r = overview_row_of p s"
    by (auto simp: build_alert_rows_overview_rows)
  then show "score_respects_bounds (config_model p) (ov_priority_score r)"
    by (simp add: overview_row_of_def priority_score_respects_bounds)
next
  fix a assume "a \<in> set (action_rows (build_alert_rows p cs))"
  then obtain s where "a = action_row_of p s (within_cooldown p s)"
    using build_alert_rows_action_row by blast
  then show "score_respects_bounds (config_model p) (ar_priority_score a)"
    by (simp add: action_row_of_def priority_score_respects_bounds)
next
  fix k m assume "meta_map (build_alert_rows p cs) k = Some m"
  then obtain s where "m = meta_entry_of p s"
    using build_alert_rows_meta_map by blast
  then show "score_respects_bounds (config_model p) (m_priority_score m)"
    by (simp add: meta_entry_of_def priority_score_respects_bounds)
qed

section \<open>The ten-order customer under an upper bound of 99.999\<close>

lemma tight_params_fields:
  "today tight_params = 739000" "defaults (config_model tight_params) = Map.empty"
  "churn_days tight_params = 90" "churn_multiplier tight_params = 2"
  "exclude_recent_days tight_params = 30" "contact_log tight_params = Map.empty"
  "cooldown_scope tight_params = SCOPE_ACTION"
  "orders_dampening (config_model tight_params) = []"
  "priority_min (config_model tight_params) = - 50"
  "priority_max (config_model tight_params) = 99999 / 1000"
  "timing_window_boost_config (config_model tight_params) = default_timing"
  by (simp_all add: tight_params_def tight_config_def default_params_def default_config_def)

lemma ten_order_customer_basics:
  assumes "0 < a"
  shows "cust_days_since tight_params (ten_order_customer a) = Some 30"
    "cust_avg_order_value (ten_order_customer a) = 600"
    "cust_top_platform (ten_order_customer a) = None"
  using assms
  by (simp_all add: cust_days_since_def cust_avg_order_value_def cust_top_platform_def
      choose_primary_def ten_order_customer_fields tight_params_fields)

lemmas ten_order_customer_tight_long_term =
  ten_order_customer_long_term [OF _ tight_params_fields(2) tight_params_fields(3)
    tight_params_fields(4)]

lemmas ten_order_customer_tight_windows =
  ten_order_customer_windows [OF _ tight_params_fields(1)]

lemma ten_order_customer_profile:
  "0 < a \<Longrightarrow>
   cust_category_profile tight_params (ten_order_customer a) =
     \<lparr>p_gross_margin = 3 / 10, p_category_cycle_days = 60, p_expected_return_rate = 8 / 100,
      p_touch_cost = 6, p_max_estimated_margin = 10000, p_max_estimated_uplift = 5\<rparr>"
  by (rule profile_without_item) (simp_all add: ten_order_customer_fields tight_params_fields)

lemma ten_order_customer_uplift:
  "0 < a \<Longrightarrow> cust_estimated_uplift tight_params (ten_order_customer a) = 1"
  by (simp add: cust_estimated_uplift_def estimate_uplift_def effective_uplift_cap_def
      use_premium_uplift_def defaults_get_def is_vip_def vip_recency_factor_def
      some_and_def ten_order_customer_basics ten_order_customer_tight_long_term
      ten_order_customer_fields ten_order_customer_return_rate ten_order_customer_profile
      tight_params_fields Let_def)

lemma ten_order_customer_pre_weight:
  "0 < a \<Longrightarrow> priority_score_pre_weight tight_params (ten_order_customer a) = 3927 / 25"
  by (simp add: priority_score_pre_weight_def ten_order_customer_uplift
      cust_estimated_margin_def cust_margin_cap_def cust_estimated_return_rate_def
      cust_touch_cost_def platform_cost_def truthy_def ten_order_customer_basics
      ten_order_customer_fields ten_order_customer_return_rate ten_order_customer_profile
      Let_def)

lemma ten_order_customer_clv:
  "0 < a \<Longrightarrow>
   cust_clv tight_params (ten_order_customer a) = (57, GROWTH_STABLE, LABEL_POTENTIAL)"
  by (simp add: cust_clv_def compute_customer_lifecycle_value_def clv_historical_score_def
      clv_activity_score_def clv_growth_def ten_order_customer_tight_windows
      ten_order_customer_fields tight_params_fields Let_def GROWTH_STABLE_def
      GROWTH_GROWING_def GROWTH_HIGH_POTENTIAL_NEW_def)

lemma ten_order_customer_boosts:
  assumes "0 < a"
  shows "clv_boost tight_params (ten_order_customer a) = 15"
    "return_rate_boost (ten_order_customer a) = 10"
    "aov_boost (ten_order_customer a) = 25"
    "activity_boost tight_params (ten_order_customer a) = 50"
    "platform_boost (ten_order_customer a) = 0"
    "high_freq_boost (ten_order_customer a) = 0"
    "super_vip_boost (ten_order_customer a) = 80"
    "timing_window_boost tight_params (ten_order_customer a) = 0"
    "exchange_penalty (ten_order_customer a) = 0"
    "long_dormant_penalty tight_params (ten_order_customer a) = 0"
  using assms
  by (simp_all add: clv_boost_def cust_potential_label_def ten_order_customer_clv
      return_rate_boost_def aov_boost_def activity_boost_def platform_boost_def
      high_freq_boost_def super_vip_boost_def timing_window_boost_def
      calculate_timing_boost_def exchange_penalty_def effective_orders_def
      long_dormant_penalty_def ten_order_customer_exchange_count ten_order_customer_basics
      ten_order_customer_fields ten_order_customer_return_rate ten_order_customer_cycle
      tight_params_fields default_timing_fields some_and_def none_or_def truthy_def
      LABEL_STAR_def LABEL_POTENTIAL_def Let_def)

lemma ten_order_customer_unbounded:
  "0 < a \<Longrightarrow> priority_score_unbounded tight_params (ten_order_customer a) = 8427 / 25"
  by (simp add: priority_score_unbounded_def total_boost_def orders_weight_def
      ten_order_customer_pre_weight ten_order_customer_boosts tight_params_fields Let_def)

lemma ten_order_customer_tight_score:
  assumes "0 < a"
  shows "priority_score_clamped tight_params (ten_order_customer a) = 99999 / 1000"
    "priority_score_of tight_params (ten_order_customer a) = 100"
proof -
  show c: "priority_score_clamped tight_params (ten_order_customer a) = 99999 / 1000"
    using assms
    by (simp add: priority_score_clamped_def priority_bounds_def ten_order_customer_unbounded
        tight_params_fields Let_def)
  show "priority_score_of tight_params (ten_order_customer a) = 100"
    by (simp add: priority_score_of_def c py_round_def round_half_even_def Let_def)
qed

lemma build_alert_rows_single:
  assumes "orders s \<noteq> 0"
  shows "overview_rows (build_alert_rows p [s]) = [overview_row_of p s]"
    and "meta_map (build_alert_rows p [s]) = [key s \<mapsto> meta_entry_of p s]"
proof -
  show "overview_rows (build_alert_rows p [s]) = [overview_row_of p s]"
    using assms by (simp add: build_alert_rows_overview_rows)
  show "meta_map (build_alert_rows p [s]) = [key s \<mapsto> meta_entry_of p s]"
    using assms
    by (simp add: build_alert_rows_def Let_def customer_step_meta_map alert_output_init_def)
qed

lemma ten_order_customer_tight_rows:
  "0 < a \<Longrightarrow>
   action_rows (build_alert_rows tight_params [ten_order_customer a])
     = [action_row_of tight_params (ten_order_customer a) False]"
  by (rule ten_order_customer_emitted) (simp_all add: tight_params_fields)

text \<open>
  Claim C1, as stated, fails when a bound has more than two decimals: the score is
  rounded after it is clamped. Under an upper bound of 99.999 the ten-order customer,
  whose unweighted total is 337.08, is clamped to 99.999 and emitted as 100.0 in the
  overview row, the action row and the meta entry.
\<close>

theorem tight_bound_counterexample:
  "orders (ten_order_customer 100) = 10
   \<and> priority_bounds (config_model tight_params) = (- 50, 99999 / 1000)
   \<and> priority_score_unbounded tight_params (ten_order_customer 100) = 8427 / 25
   \<and> priority_score_clamped tight_params (ten_order_customer 100) = 99999 / 1000
   \<and> map ov_priority_score (overview_rows (build_alert_rows tight_params [ten_order_customer 100]))
       = [100]
   \<and> map ar_priority_score (action_rows (build_alert_rows tight_params [ten_order_customer 100]))
       = [100]
   \<and> map_option m_priority_score
        (meta_map (build_alert_rows tight_params [ten_order_customer 100]) phone_two)
       = Some 100
   \<and> \<not> (100 :: real) \<le> 99999 / 1000"
proof -
  have a: "(0::real) < 100" by simp
  have ord: "orders (ten_order_customer 100) \<noteq> 0"
    by (simp add: ten_order_customer_fields)
  show ?thesis
    using build_alert_rows_single [OF ord, of tight_params]
    by (simp add: ten_order_customer_tight_rows ten_order_customer_fields
        ten_order_customer_unbounded ten_order_customer_tight_score priority_bounds_def
        tight_params_fields overview_row_of_def action_row_of_def meta_entry_of_def)
qed

lemma default_bounds:
  "priority_bounds (config_model default_params) = (- 50, 150)"
  "py_round (- 50) 2 = - 50" "py_round 150 2 = 150"
  by (simp_all add: priority_bounds_def default_params_def default_config_def py_round_def
      round_half_even_def)

theorem emitted_scores_respect_bounds_witness:
  "priority_bounds (config_model default_params) = (- 50, 150)
   \<and> py_round (- 50) 2 = - 50 \<and> py_round 150 2 = 150
   \<and> overview_rows (build_alert_rows default_params [ten_order_customer 100])
       = [overview_row_of default_params (ten_order_customer 100)]
   \<and> - 50 \<le> ov_priority_score (overview_row_of default_params (ten_order_customer 100))
   \<and> ov_priority_score (overview_row_of default_params (ten_order_customer 100)) \<le> 150
   \<and> action_rows (build_alert_rows default_params [ten_order_customer 100])
       = [action_row_of default_params (ten_order_customer 100) False]
   \<and> - 50 \<le> ar_priority_score (action_row_of default_params (ten_order_customer 100) False)
   \<and> ar_priority_score (action_row_of default_params (ten_order_customer 100) False) \<le> 150"
proof -
  have ord: "orders (ten_order_customer 100) \<noteq> 0"
    by (simp add: ten_order_customer_fields)
  show ?thesis
    using emitted_scores_respect_bounds [of default_params "[ten_order_customer 100]"]
      build_alert_rows_single [OF ord, of default_params]
    by (simp add: ten_order_customer_default_rows default_bounds score_respects_bounds_def)
qed

section \<open>A worklist of two customers\<close>

text \<open>
  The two-order customer (score 64.75) and the ten-order customer (score 100 under the
  upper bound of 99.999), given in this order, come out of \<^verbatim>\<open>build_alert_rows\<close> with the
  ten-order customer first.
\<close>

lemma regular_customer_more_fields:
  "net_total regular_customer = 220" "profit_total regular_customer = 0"
  "refund_amount regular_customer = 0" "items regular_customer = []"
  "platforms regular_customer = []" "phone regular_customer = Some phone_one"
  "key regular_customer = phone_one"
  by (simp_all add: regular_customer_def regular_rows_def phone_one_def ingest_defs)

lemma tight_params_more_fields:
  "high_value_threshold tight_params = 5000" "anniversary_dates tight_params = None"
  "drop_threshold tight_params = 5 / 10" "anniversary_only tight_params = False"
  "cooldown_days tight_params = 0" "allow_high_return tight_params = False"
  by (simp_all add: tight_params_def default_params_def)

lemma regular_customer_basics:
  "cust_days_since tight_params regular_customer = Some 50"
  "cust_avg_order_value regular_customer = 110"
  "cust_top_platform regular_customer = None"
  "cust_windows tight_params regular_customer =
     \<lparr>days_30 = 0, days_90 = 120, prev_90 = 100, days_180 = 220, days_365 = 220\<rparr>"
  by (simp_all add: cust_days_since_def cust_avg_order_value_def cust_top_platform_def
      choose_primary_def cust_windows_def compute_time_windows_def window_add_def
      window_totals_init_def regular_customer_fields regular_customer_more_fields
      tight_params_fields)

lemmas regular_customer_profile =
  profile_without_item [OF regular_customer_more_fields(4) tight_params_fields(2)]

lemma regular_customer_thresholds:
  "long_term_threshold_of tight_params regular_customer = 120"
  "cust_short_term_threshold tight_params regular_customer = 60"
proof -
  show lt: "long_term_threshold_of tight_params regular_customer = 120"
    by (simp add: long_term_threshold_of_def threshold_candidates_def py_max_def
        cust_category_cycle_def regular_customer_profile cust_personalized_threshold_def
        regular_customer_cycle tight_params_fields)
  show "cust_short_term_threshold tight_params regular_customer = 60"
    by (simp add: cust_short_term_threshold_def lt short_term_threshold_of_def)
qed

lemma regular_customer_uplift: "cust_estimated_uplift tight_params regular_customer = 41 / 60"
  by (simp add: cust_estimated_uplift_def estimate_uplift_def effective_uplift_cap_def
      use_premium_uplift_def defaults_get_def is_vip_def regular_recency_factor_def
      some_and_def regular_customer_basics regular_customer_thresholds regular_customer_fields
      regular_customer_return_rate regular_customer_profile tight_params_fields Let_def)

lemma regular_customer_pre_weight:
  "priority_score_pre_weight tight_params regular_customer = 7373 / 500"
  by (simp add: priority_score_pre_weight_def regular_customer_uplift cust_estimated_margin_def
      cust_margin_cap_def cust_estimated_return_rate_def cust_touch_cost_def platform_cost_def
      truthy_def regular_customer_basics regular_customer_fields regular_customer_more_fields
      regular_customer_return_rate regular_customer_profile Let_def)

lemma regular_customer_clv:
  "cust_clv tight_params regular_customer =
     (2393 / 60, GROWTH_STABLE, LABEL_ORDINARY)"
  by (simp add: cust_clv_def compute_customer_lifecycle_value_def clv_historical_score_def
      clv_activity_score_def clv_growth_def regular_customer_basics regular_customer_fields
      regular_customer_more_fields tight_params_fields Let_def GROWTH_STABLE_def
      GROWTH_GROWING_def GROWTH_HIGH_POTENTIAL_NEW_def)

lemma regular_customer_boosts:
  "clv_boost tight_params regular_customer = 0"
  "return_rate_boost regular_customer = 20"
  "aov_boost regular_customer = 0"
  "activity_boost tight_params regular_customer = 0"
  "platform_boost regular_customer = 0"
  "high_freq_boost regular_customer = 0"
  "super_vip_boost regular_customer = 0"
  "timing_window_boost tight_params regular_customer = 30"
  "exchange_penalty regular_customer = 0"
  "long_dormant_penalty tight_params regular_customer = 0"
  by (simp_all add: clv_boost_def cust_potential_label_def regular_customer_clv
      return_rate_boost_def aov_boost_def activity_boost_def platform_boost_def
      high_freq_boost_def super_vip_boost_def timing_window_boost_def
      calculate_timing_boost_def exchange_penalty_def effective_orders_def
      long_dormant_penalty_def regular_customer_exchange_count regular_customer_basics
      regular_customer_fields regular_customer_return_rate regular_customer_cycle
      tight_params_fields default_timing_fields some_and_def none_or_def truthy_def
      LABEL_STAR_def LABEL_POTENTIAL_def LABEL_ORDINARY_def py_round_30 Let_def)

lemma regular_customer_score: "priority_score_of tight_params regular_customer = 259 / 4"
  by (simp add: priority_score_of_def priority_score_clamped_def priority_bounds_def
      priority_score_unbounded_def total_boost_def orders_weight_def
      regular_customer_pre_weight regular_customer_boosts tight_params_fields
      py_round_def round_half_even_def Let_def)

lemma regular_customer_tags: "cust_tags tight_params regular_customer = []"
  by (simp add: cust_tags_def churn_tags_def spend_drop_tags_def refund_spike_tags_def
      anniversary_tags_def high_value_active_tags_def refund_spike_def
      cust_anniversary_match_def regular_customer_basics regular_customer_thresholds
      regular_customer_fields regular_customer_more_fields tight_params_fields
      tight_params_more_fields some_and_def)

lemma regular_customer_emitted:
  "emitted_action_rows tight_params regular_customer
     = [action_row_of tight_params regular_customer False]"
proof -
  have inc: "include_in_action tight_params regular_customer"
    by (simp add: include_in_action_def regular_customer_score)
  have nf: "\<not> filtered_out tight_params regular_customer"
    by (simp add: filtered_out_def recent_buyer_excluded_def high_return_excluded_def
        single_order_excluded_def presumed_lost_excluded_def regular_customer_basics
        regular_customer_thresholds regular_customer_fields regular_customer_return_rate
        tight_params_fields some_and_def)
  show ?thesis
    using inc nf no_contact_log [OF tight_params_fields(6), of regular_customer]
    by (simp add: emitted_action_rows_def hidden_by_global_cooldown_def
        regular_customer_fields)
qed

lemma ten_order_customer_tight_emitted:
  "emitted_action_rows tight_params (ten_order_customer 100)
     = [action_row_of tight_params (ten_order_customer 100) False]"
proof -
  have nf: "\<not> filtered_out tight_params (ten_order_customer 100)"
    by (rule ten_order_customer_not_filtered) (simp_all add: tight_params_fields)
  have inc: "include_in_action tight_params (ten_order_customer 100)"
    by (rule include_in_action_many_orders) (simp add: ten_order_customer_fields)
  show ?thesis
    using nf inc no_contact_log [OF tight_params_fields(6), of "ten_order_customer 100"]
    by (simp add: emitted_action_rows_def hidden_by_global_cooldown_def
        ten_order_customer_fields)
qed

theorem action_rows_sorted_witness:
  "sorted_wrt claimed_action_order
     (action_rows (build_alert_rows tight_params [regular_customer, ten_order_customer 100]))
   \<and> map ar_detail_key
        (action_rows (build_alert_rows tight_params [regular_customer, ten_order_customer 100]))
       = [phone_two, phone_one]
   \<and> map ar_priority_score
        (action_rows (build_alert_rows tight_params [regular_customer, ten_order_customer 100]))
       = [100, 259 / 4]"
proof -
  have rows: "action_rows (build_alert_rows tight_params [regular_customer, ten_order_customer 100])
      = [action_row_of tight_params (ten_order_customer 100) False,
         action_row_of tight_params regular_customer False]"
    by (simp add: build_alert_rows_action_rows regular_customer_emitted
        ten_order_customer_tight_emitted action_sort_key_def action_row_of_def
        regular_customer_score ten_order_customer_tight_score less_eq_prod_def Let_def)
  show ?thesis
    using action_rows_sorted [of tight_params "[regular_customer, ten_order_customer 100]"]
    by (simp add: rows action_row_of_def regular_customer_score ten_order_customer_tight_score
        regular_customer_more_fields ten_order_customer_fields)
qed

end
